theory Spec2Isabelle
  imports Complex_Main "HOL-Library.AList"
begin

section \<open>Values exchanged with OBS\<close>

text \<open>
  Frames are JSON documents. A decoded document is a \<open>json\<close> value: Python's \<open>None\<close>,
  \<open>bool\<close>, \<open>int\<close>, \<open>str\<close>, \<open>list\<close> and \<open>dict\<close>. A \<open>dict\<close> is an association list whose first
  binding of a key is the one \<open>get\<close> finds. A \<open>str\<close> is a list of code points below 256; \<open>bytes\<close>
  is a list of octets. Numbers with a fractional part are outside the modelled input domain.
\<close>

datatype json =
    JNull
  | JBool bool
  | JInt int
  | JStr string
  | JArr "json list"
  | JObj "(string \<times> json) list"

type_synonym bytes = "char list"

text \<open>
  The exception classes of \<open>obs_connection.py\<close>, and the built-in ones its code can let
  through. \<open>OBSRequestError\<close> keeps \<open>request_type\<close> and \<open>status\<close>, and the \<open>code\<close> and
  \<open>message\<close> its constructor puts into the text of the exception.
\<close>

datatype error =
    OBSConnectionError string
  | OBSAuthenticationError string
  | OBSNotConnectedError string
  | OBSResponseTimeoutError string
  | OBSRequestError string json json json
  | ValueError string
  | AttributeError
  | TypeError
  | UnicodeDecodeError
  | OSError
  | OtherException

text \<open>\<open>isinstance(exc, OBSConnectionError)\<close>: the base class and its four subclasses.\<close>

fun is_obs_connection_error :: "error \<Rightarrow> bool" where
  "is_obs_connection_error (OBSConnectionError _) = True"
| "is_obs_connection_error (OBSAuthenticationError _) = True"
| "is_obs_connection_error (OBSNotConnectedError _) = True"
| "is_obs_connection_error (OBSResponseTimeoutError _) = True"
| "is_obs_connection_error (OBSRequestError _ _ _ _) = True"
| "is_obs_connection_error _ = False"

text \<open>Python's truth value of an object, as \<open>if x:\<close>, \<open>not x\<close> and \<open>x or y\<close> test it.\<close>

fun truthy :: "json \<Rightarrow> bool" where
  "truthy JNull = False"
| "truthy (JBool b) = b"
| "truthy (JInt i) = (i \<noteq> 0)"
| "truthy (JStr s) = (s \<noteq> [])"
| "truthy (JArr xs) = (xs \<noteq> [])"
| "truthy (JObj kvs) = (kvs \<noteq> [])"

definition py_or :: "json \<Rightarrow> json \<Rightarrow> json" where
  "py_or a b = (if truthy a then a else b)"

text \<open>\<open>x.get(key, default)\<close>: only a \<open>dict\<close> has the method.\<close>

fun dict_get :: "json \<Rightarrow> string \<Rightarrow> json \<Rightarrow> error + json" where
  "dict_get (JObj kvs) k dflt = Inr (case map_of kvs k of Some v \<Rightarrow> v | None \<Rightarrow> dflt)"
| "dict_get _ k dflt = Inl AttributeError"

text \<open>Whether a value is a \<open>dict\<close>.\<close>

fun is_dict :: "json \<Rightarrow> bool" where
  "is_dict (JObj _) = True"
| "is_dict _ = False"

text \<open>\<open>x == n\<close> for an integer literal \<open>n\<close>: \<open>False == 0\<close> and \<open>True == 1\<close> hold in Python.\<close>

fun py_eq_int :: "json \<Rightarrow> int \<Rightarrow> bool" where
  "py_eq_int (JInt i) n = (i = n)"
| "py_eq_int (JBool b) n = ((if b then 1 else 0) = n)"
| "py_eq_int _ n = False"

section \<open>The socket\<close>

text \<open>
  The \<open>WebSocket\<close> object of the \<open>websocket\<close> package, as far as the client uses it. \<open>incoming\<close>
  is what the calls of \<open>recv()\<close> yield, in order: a text frame, \<open>None\<close>, or the exception
  raised. When the list is used up the peer has closed the connection. \<open>outgoing\<close> is what
  \<open>send()\<close> has written (the payloads, before \<open>json.dumps\<close>), and \<open>send_fails\<close> says that
  \<open>send()\<close> raises \<open>WebSocketException\<close>.
\<close>

datatype recv_event =
    Frame string
  | NoMessage
  | ConnectionClosed
  | WebSocketError
  | SocketOSError
  | UnexpectedError

record socket =
  incoming :: "recv_event list"
  outgoing :: "json list"
  send_fails :: bool
  sock_timeout :: "real option"
  sock_closed :: bool

definition sock_recv :: "socket \<Rightarrow> recv_event \<times> socket" where
  "sock_recv sock =
     (if sock_closed sock then (ConnectionClosed, sock)
      else case incoming sock of
             [] \<Rightarrow> (ConnectionClosed, sock)
           | ev # rest \<Rightarrow> (ev, sock\<lparr>incoming := rest\<rparr>))"

definition sock_send :: "socket \<Rightarrow> json \<Rightarrow> socket option" where
  "sock_send sock payload =
     (if sock_closed sock \<or> send_fails sock then None
      else Some (sock\<lparr>outgoing := outgoing sock @ [payload]\<rparr>))"

definition sock_close :: "socket \<Rightarrow> socket" where
  "sock_close sock = sock\<lparr>sock_closed := True\<rparr>"

text \<open>
  What the code takes from outside the repository: \<open>hashlib.sha256(..).digest()\<close>,
  \<open>json.loads\<close> (\<open>None\<close> stands for \<open>JSONDecodeError\<close>), \<open>int\<close> applied to a \<open>str\<close> (\<open>None\<close> stands
  for \<open>ValueError\<close>), \<open>websocket.create_connection\<close> (\<open>None\<close> stands for any exception it
  raises) and \<open>str(uuid.uuid4())\<close>: \<open>uuid4 lib n\<close> is what the call returns when \<open>n\<close> values
  have been drawn before it.
\<close>

record stdlib =
  sha256 :: "bytes \<Rightarrow> bytes"
  json_loads :: "string \<Rightarrow> json option"
  int_of_str :: "string \<Rightarrow> int option"
  create_connection :: "string \<Rightarrow> real \<Rightarrow> socket option"
  uuid4 :: "nat \<Rightarrow> string"

text \<open>\<open>int(x)\<close>.\<close>

fun py_int :: "stdlib \<Rightarrow> json \<Rightarrow> error + int" where
  "py_int lib (JInt i) = Inr i"
| "py_int lib (JBool b) = Inr (if b then 1 else 0)"
| "py_int lib (JStr s) =
     (case int_of_str lib s of Some i \<Rightarrow> Inr i | None \<Rightarrow> Inl (ValueError ''invalid literal for int()''))"
| "py_int lib _ = Inl TypeError"

subsection \<open>UTF-8 and base64\<close>

text \<open>\<open>s.encode("utf-8")\<close> on code points below 256: one octet below 128, two from there on.\<close>

definition utf8_char :: "char \<Rightarrow> bytes" where
  "utf8_char c =
     (let n = (of_char c :: nat)
      in if n < 128 then [c] else [char_of (192 + n div 64), char_of (128 + n mod 64)])"

definition utf8_encode :: "string \<Rightarrow> bytes" where
  "utf8_encode s = concat (map utf8_char s)"

text \<open>
  \<open>b.decode("utf-8")\<close>, for octet sequences that decode to code points below 256;
  \<open>None\<close> stands for \<open>UnicodeDecodeError\<close> (or a code point the model has no \<open>char\<close> for).
\<close>

fun utf8_decode :: "bytes \<Rightarrow> string option" where
  "utf8_decode [] = Some []"
| "utf8_decode [b] = (if (of_char b :: nat) < 128 then Some [b] else None)"
| "utf8_decode (b # c # rest) =
     (let n = (of_char b :: nat); m = (of_char c :: nat)
      in if n < 128 then map_option ((#) b) (utf8_decode (c # rest))
         else if (n = 194 \<or> n = 195) \<and> 128 \<le> m \<and> m < 192
           then map_option ((#) (char_of ((n - 192) * 64 + (m - 128)))) (utf8_decode rest)
         else None)"

definition b64_alphabet :: string where
  "b64_alphabet = ''ABCDEFGHIJKLMNOPQRSTUVWXYZabcdefghijklmnopqrstuvwxyz0123456789+/''"

definition b64_digit :: "nat \<Rightarrow> char" where
  "b64_digit n = b64_alphabet ! (n mod 64)"

text \<open>\<open>base64.b64encode\<close>: three octets become four digits, the tail is padded with \<open>=\<close>.\<close>

fun b64encode :: "bytes \<Rightarrow> bytes" where
  "b64encode [] = []"
| "b64encode [a] =
     (let x = (of_char a :: nat)
      in [b64_digit (x div 4), b64_digit ((x mod 4) * 16), CHR ''='', CHR ''=''])"
| "b64encode [a, b] =
     (let x = (of_char a :: nat); y = (of_char b :: nat)
      in [b64_digit (x div 4), b64_digit ((x mod 4) * 16 + y div 16),
          b64_digit ((y mod 16) * 4), CHR ''=''])"
| "b64encode (a # b # c # rest) =
     (let x = (of_char a :: nat); y = (of_char b :: nat); z = (of_char c :: nat)
      in [b64_digit (x div 4), b64_digit ((x mod 4) * 16 + y div 16),
          b64_digit ((y mod 16) * 4 + z div 64), b64_digit (z mod 64)] @ b64encode rest)"

section \<open>Configuration\<close>

record obs_connection_config =
  host :: string
  port :: int
  password :: string
  use_ssl :: bool
  request_timeout :: real
  event_subscriptions :: int

definition default_config :: obs_connection_config where
  "default_config =
     \<lparr>host = ''127.0.0.1'', port = 4455, password = '''', use_ssl = False,
      request_timeout = 5, event_subscriptions = 0\<rparr>"

text \<open>\<open>str(n)\<close> for an integer, as the f-string of \<open>as_url\<close> formats the port.\<close>

definition decimal_digit :: "nat \<Rightarrow> char" where
  "decimal_digit d = ''0123456789'' ! (d mod 10)"

fun string_of_nat :: "nat \<Rightarrow> string" where
  "string_of_nat n =
     (let last_digit = decimal_digit (n mod 10)
      in if n div 10 = 0 then [last_digit] else string_of_nat (n div 10) @ [last_digit])"

declare string_of_nat.simps [simp del]

definition string_of_int :: "int \<Rightarrow> string" where
  "string_of_int i = (if i < 0 then CHR ''-'' # string_of_nat (nat (- i)) else string_of_nat (nat i))"

definition as_url :: "obs_connection_config \<Rightarrow> string" where
  "as_url cfg =
     (let scheme = (if use_ssl cfg then ''wss'' else ''ws'')
      in scheme @ ''://'' @ host cfg @ '':'' @ string_of_int (port cfg))"

text \<open>
  The keyword arguments of \<open>dataclasses.replace\<close>: a field that is given replaces the old value.
\<close>

record config_changes =
  new_host :: "string option"
  new_port :: "int option"
  new_password :: "string option"
  new_use_ssl :: "bool option"
  new_request_timeout :: "real option"
  new_event_subscriptions :: "int option"

definition replace :: "obs_connection_config \<Rightarrow> config_changes \<Rightarrow> obs_connection_config" where
  "replace cfg kwargs =
     \<lparr>host = (case new_host kwargs of Some v \<Rightarrow> v | None \<Rightarrow> host cfg),
      port = (case new_port kwargs of Some v \<Rightarrow> v | None \<Rightarrow> port cfg),
      password = (case new_password kwargs of Some v \<Rightarrow> v | None \<Rightarrow> password cfg),
      use_ssl = (case new_use_ssl kwargs of Some v \<Rightarrow> v | None \<Rightarrow> use_ssl cfg),
      request_timeout = (case new_request_timeout kwargs of Some v \<Rightarrow> v | None \<Rightarrow> request_timeout cfg),
      event_subscriptions =
        (case new_event_subscriptions kwargs of Some v \<Rightarrow> v | None \<Rightarrow> event_subscriptions cfg)\<rparr>"

text \<open>\<open>timeout or self._config.request_timeout\<close>: \<open>None\<close> and \<open>0.0\<close> are both false.\<close>

definition timeout_or :: "real option \<Rightarrow> real \<Rightarrow> real" where
  "timeout_or timeout dflt = (case timeout of None \<Rightarrow> dflt | Some t \<Rightarrow> if t = 0 then dflt else t)"

section \<open>Authentication response\<close>

text \<open>
  \<open>_build_auth_response\<close>. \<open>self._config.password + salt\<close> raises \<open>TypeError\<close> unless \<open>salt\<close> is a
  \<open>str\<close>, and \<open>challenge.encode\<close> raises \<open>AttributeError\<close> unless \<open>challenge\<close> is one.
\<close>

definition build_auth_response :: "stdlib \<Rightarrow> obs_connection_config \<Rightarrow> json \<Rightarrow> error + string" where
  "build_auth_response lib cfg auth_payload =
     (case dict_get auth_payload ''challenge'' JNull of
        Inl e \<Rightarrow> Inl e
      | Inr challenge \<Rightarrow>
     (case dict_get auth_payload ''salt'' JNull of
        Inl e \<Rightarrow> Inl e
      | Inr salt \<Rightarrow>
          if challenge = JNull \<or> salt = JNull
          then Inl (OBSAuthenticationError ''OBS authentication payload missing challenge or salt'')
          else
            (case salt of
               JStr salt_s \<Rightarrow>
                 (let secret = sha256 lib (utf8_encode (password cfg @ salt_s));
                      secret_b64 = b64encode secret
                  in case challenge of
                       JStr challenge_s \<Rightarrow>
                         (let auth_response = sha256 lib (secret_b64 @ utf8_encode challenge_s)
                          in case utf8_decode (b64encode auth_response) of
                               Some s \<Rightarrow> Inr s
                             | None \<Rightarrow> Inl UnicodeDecodeError)
                     | _ \<Rightarrow> Inl AttributeError)
             | _ \<Rightarrow> Inl TypeError)))"

section \<open>The connection manager\<close>

text \<open>
  The fields of \<open>OBSConnectionManager\<close>. \<open>responses\<close> is the dictionary of arrived responses,
  in insertion order; \<open>receiver_thread\<close> is \<open>None\<close> or the thread with what \<open>is_alive()\<close> says;
  \<open>receiver_running\<close> and \<open>identified\<close> are the two \<open>threading.Event\<close> flags.

  The other fields record what the manager does to the objects around it. \<open>notified\<close> counts
  the calls of \<open>notify_all()\<close> on the response condition, and \<open>waits\<close> lists the timeouts of
  the calls of \<open>wait(timeout=...)\<close> on it, in order. \<open>send_events\<close> is the history of the
  write side: \<open>_send_lock\<close> acquired, a frame accepted by \<open>ws.send\<close>, \<open>_send_lock\<close> released.
  \<open>uuid_calls\<close> is the number of values drawn from \<open>uuid.uuid4()\<close>, and \<open>logged\<close> is what
  went to the logger.
\<close>

datatype log_level = Debug | Info | Warning | Error

datatype send_event = SendLockAcquired | Sent json | SendLockReleased

record obs_connection_manager =
  config :: obs_connection_config
  ws :: "socket option"
  rpc_version :: int
  responses :: "(json \<times> json) list"
  receiver_thread :: "bool option"
  receiver_running :: bool
  identified :: bool
  notified :: nat
  waits :: "real list"
  send_events :: "send_event list"
  uuid_calls :: nat
  logged :: "(log_level \<times> string) list"

definition init :: "obs_connection_config option \<Rightarrow> obs_connection_manager" where
  "init cfg =
     \<lparr>config = (case cfg of Some c \<Rightarrow> c | None \<Rightarrow> default_config),
      ws = None, rpc_version = 1, responses = [], receiver_thread = None,
      receiver_running = False, identified = False, notified = 0, waits = [],
      send_events = [], uuid_calls = 0, logged = []\<rparr>"

definition logger :: "log_level \<Rightarrow> string \<Rightarrow> obs_connection_manager \<Rightarrow> obs_connection_manager" where
  "logger lvl msg s = s\<lparr>logged := logged s @ [(lvl, msg)]\<rparr>"

definition is_connected :: "obs_connection_manager \<Rightarrow> bool" where
  "is_connected s = (ws s \<noteq> None \<and> identified s)"

definition safe_close :: "obs_connection_manager \<Rightarrow> obs_connection_manager" where
  "safe_close s = s\<lparr>ws := None\<rparr>"

text \<open>\<open>_send\<close>.\<close>

definition send :: "obs_connection_manager \<Rightarrow> json \<Rightarrow> (error + unit) \<times> obs_connection_manager" where
  "send s payload =
     (case ws s of
        None \<Rightarrow> (Inl (OBSNotConnectedError ''Cannot send payload, websocket is closed''), s)
      | Some sock \<Rightarrow>
          (case sock_send sock payload of
             None \<Rightarrow> (Inl (OBSConnectionError ''Failed to send message to OBS''), s)
           | Some sock' \<Rightarrow>
               (Inr (), s\<lparr>ws := Some sock', send_events := send_events s @ [Sent payload]\<rparr>)))"

text \<open>
  \<open>_recv\<close>: the read runs under \<open>timeout\<close>, and the \<open>finally\<close> clause puts the previous timeout
  back. \<open>json.loads(None)\<close> raises \<open>TypeError\<close>.
\<close>

definition recv :: "stdlib \<Rightarrow> obs_connection_manager \<Rightarrow> real \<Rightarrow> (error + json) \<times> obs_connection_manager" where
  "recv lib s timeout =
     (case ws s of
        None \<Rightarrow> (Inl (OBSNotConnectedError ''Cannot receive payload, websocket is closed''), s)
      | Some sock \<Rightarrow>
          (let previous_timeout = sock_timeout sock
           in case sock_recv (sock\<lparr>sock_timeout := Some timeout\<rparr>) of
                (ev, sock') \<Rightarrow>
                  (let s' = s\<lparr>ws := Some (sock'\<lparr>sock_timeout := previous_timeout\<rparr>)\<rparr>
                   in case ev of
                        Frame message \<Rightarrow>
                          (case json_loads lib message of
                             Some v \<Rightarrow> (Inr v, s')
                           | None \<Rightarrow> (Inl (OBSConnectionError ''Received invalid JSON from OBS''), s'))
                      | NoMessage \<Rightarrow> (Inl TypeError, s')
                      | ConnectionClosed \<Rightarrow>
                          (Inl (OBSConnectionError ''Failed to receive data from OBS''), s')
                      | WebSocketError \<Rightarrow>
                          (Inl (OBSConnectionError ''Failed to receive data from OBS''), s')
                      | SocketOSError \<Rightarrow> (Inl OSError, s')
                      | UnexpectedError \<Rightarrow> (Inl OtherException, s'))))"

subsection \<open>Handshake\<close>

text \<open>
  \<open>_perform_handshake\<close> from the line that sends the Identify frame: send it, read the
  answer, which must carry opcode 2, set the flag and switch the socket to blocking reads.
\<close>

definition complete_handshake ::
  "stdlib \<Rightarrow> obs_connection_manager \<Rightarrow> real \<Rightarrow> json \<Rightarrow> (error + unit) \<times> obs_connection_manager" where
  "complete_handshake lib s timeout identify_payload =
     (case send s identify_payload of
        (Inl e, s1) \<Rightarrow> (Inl e, s1)
      | (Inr _, s1) \<Rightarrow>
     (case recv lib s1 timeout of
        (Inl e, s2) \<Rightarrow> (Inl e, s2)
      | (Inr identified_msg, s2) \<Rightarrow>
     (case dict_get identified_msg ''op'' JNull of
        Inl e \<Rightarrow> (Inl e, s2)
      | Inr op \<Rightarrow>
          if \<not> py_eq_int op 2
          then (Inl (OBSConnectionError ''OBS handshake failed: missing Identified acknowledgement''), s2)
          else
            (let s3 = s2\<lparr>identified := True\<rparr>;
                 s4 = (case ws s3 of
                         None \<Rightarrow> s3
                       | Some sock \<Rightarrow> s3\<lparr>ws := Some (sock\<lparr>sock_timeout := None\<rparr>)\<rparr>)
             in (Inr (), logger Debug ''OBS WebSocket handshake completed'' s4)))))"

text \<open>\<open>_perform_handshake\<close>, up to the Identify payload.\<close>

definition perform_handshake ::
  "stdlib \<Rightarrow> obs_connection_manager \<Rightarrow> real \<Rightarrow> (error + unit) \<times> obs_connection_manager" where
  "perform_handshake lib s timeout =
     (case recv lib s timeout of
        (Inl e, s1) \<Rightarrow> (Inl e, s1)
      | (Inr hello, s1) \<Rightarrow>
     (case dict_get hello ''op'' JNull of
        Inl e \<Rightarrow> (Inl e, s1)
      | Inr op \<Rightarrow>
          if \<not> py_eq_int op 0
          then (Inl (OBSConnectionError ''Did not receive OBS Hello message during handshake''), s1)
          else
     (case dict_get hello ''d'' (JObj []) of
        Inl e \<Rightarrow> (Inl e, s1)
      | Inr hello_data \<Rightarrow>
     (case dict_get hello_data ''rpcVersion'' (JInt 1) of
        Inl e \<Rightarrow> (Inl e, s1)
      | Inr version \<Rightarrow>
     (case py_int lib version of
        Inl e \<Rightarrow> (Inl e, s1)
      | Inr v \<Rightarrow>
          (let s2 = s1\<lparr>rpc_version := v\<rparr>;
               d = [(''rpcVersion'', JInt (rpc_version s2)),
                    (''eventSubscriptions'', JInt (event_subscriptions (config s2)))]
           in case dict_get hello_data ''authentication'' JNull of
                Inl e \<Rightarrow> (Inl e, s2)
              | Inr auth \<Rightarrow>
                  if truthy auth then
                    if password (config s2) = []
                    then (Inl (OBSAuthenticationError
                                 ''OBS WebSocket requires a password but none was provided''), s2)
                    else
                      (case build_auth_response lib (config s2) auth of
                         Inl e \<Rightarrow> (Inl e, s2)
                       | Inr a \<Rightarrow>
                           complete_handshake lib s2 timeout
                             (JObj [(''op'', JInt 1),
                                    (''d'', JObj (d @ [(''authentication'', JStr a)]))]))
                  else
                    complete_handshake lib s2 timeout
                      (JObj [(''op'', JInt 1), (''d'', JObj d)])))))))"

subsection \<open>Receiver\<close>

text \<open>
  A key of the \<open>responses\<close> dictionary: a \<open>list\<close> or a \<open>dict\<close> is unhashable (\<open>TypeError\<close>), and
  \<open>True\<close> and \<open>False\<close> are the keys \<open>1\<close> and \<open>0\<close>.
\<close>

fun dict_key :: "json \<Rightarrow> json option" where
  "dict_key (JArr _) = None"
| "dict_key (JObj _) = None"
| "dict_key (JBool b) = Some (JInt (if b then 1 else 0))"
| "dict_key k = Some k"

text \<open>The block under \<open>with self._response_condition\<close> in \<open>_handle_message\<close>.\<close>

definition put_response :: "json \<Rightarrow> json \<Rightarrow> obs_connection_manager \<Rightarrow> obs_connection_manager" where
  "put_response k data s =
     s\<lparr>responses := AList.update k data (responses s), notified := Suc (notified s)\<rparr>"

definition store_response ::
  "obs_connection_manager \<Rightarrow> json \<Rightarrow> json \<Rightarrow> (error + unit) \<times> obs_connection_manager" where
  "store_response s request_id data =
     (case dict_key request_id of
        None \<Rightarrow> (Inl TypeError, s)
      | Some k \<Rightarrow> (Inr (), put_response k data s))"

text \<open>\<open>_handle_message\<close>. \<open>Inl\<close> is an exception that leaves the method.\<close>

definition handle_message ::
  "stdlib \<Rightarrow> obs_connection_manager \<Rightarrow> json \<Rightarrow> (error + unit) \<times> obs_connection_manager" where
  "handle_message lib s payload =
     (case dict_get payload ''op'' JNull of
        Inl e \<Rightarrow> (Inl e, s)
      | Inr op \<Rightarrow>
     (case dict_get payload ''d'' (JObj []) of
        Inl e \<Rightarrow> (Inl e, s)
      | Inr data \<Rightarrow>
          if py_eq_int op 0 then
            (let s1 = logger Info ''OBS WebSocket requested re-identification'' s
             in case perform_handshake lib s1 (request_timeout (config s1)) of
                  (Inl exc, s2) \<Rightarrow> (Inr (), logger Error ''Re-identification failed'' s2)
                | (Inr _, s2) \<Rightarrow> (Inr (), s2))
          else if py_eq_int op 2 then
            (Inr (), logger Debug ''OBS WebSocket identified again'' (s\<lparr>identified := True\<rparr>))
          else if py_eq_int op 5 then
            (case dict_get data ''eventType'' JNull of
               Inl e \<Rightarrow> (Inl e, s)
             | Inr event_type \<Rightarrow> (Inr (), logger Debug ''OBS Event received'' s))
          else if py_eq_int op 7 then
            (case dict_get data ''requestId'' JNull of
               Inl e \<Rightarrow> (Inl e, s)
             | Inr request_id \<Rightarrow>
                 if truthy request_id then store_response s request_id data else (Inr (), s))
          else if py_eq_int op 8 then
            (case dict_get data ''requestId'' JNull of
               Inl e \<Rightarrow> (Inl e, s)
             | Inr request_id \<Rightarrow>
                 if truthy request_id then store_response s request_id data else (Inr (), s))
          else (Inr (), logger Debug ''Unhandled OBS message'' s)))"

text \<open>The frames the socket still holds: no method of the manager adds to them.\<close>

definition pending :: "obs_connection_manager \<Rightarrow> nat" where
  "pending s = (case ws s of None \<Rightarrow> 0 | Some sock \<Rightarrow> length (incoming sock))"

lemma sock_recv_length:
  "sock_recv sock = (ev, sock') \<Longrightarrow> length (incoming sock') \<le> length (incoming sock)"
  by (auto simp: sock_recv_def split: if_splits list.splits)

lemma sock_recv_consumes:
  "sock_recv sock = (ev, sock') \<Longrightarrow> ev \<noteq> ConnectionClosed \<Longrightarrow>
   length (incoming sock') < length (incoming sock)"
  by (auto simp: sock_recv_def split: if_splits list.splits)

lemma pending_logger [simp]: "pending (logger lvl msg s) = pending s"
  by (simp add: pending_def logger_def)

lemma pending_send: "send s payload = (r, s') \<Longrightarrow> pending s' = pending s"
  by (auto simp: send_def sock_send_def pending_def split: option.splits if_splits)

lemma pending_recv: "recv lib s timeout = (r, s') \<Longrightarrow> pending s' \<le> pending s"
proof (cases "ws s")
  case None
  then show "recv lib s timeout = (r, s') \<Longrightarrow> pending s' \<le> pending s"
    by (auto simp: recv_def)
next
  case (Some sock)
  obtain ev sock' where got: "sock_recv (sock\<lparr>sock_timeout := Some timeout\<rparr>) = (ev, sock')"
    by (cases "sock_recv (sock\<lparr>sock_timeout := Some timeout\<rparr>)")
  from sock_recv_length [OF got] have le: "length (incoming sock') \<le> length (incoming sock)"
    by simp
  assume "recv lib s timeout = (r, s')"
  with Some got have "ws s' = Some (sock'\<lparr>sock_timeout := sock_timeout sock\<rparr>)"
    by (auto simp: recv_def Let_def split: recv_event.splits option.splits)
  with Some le show "pending s' \<le> pending s"
    by (simp add: pending_def)
qed

lemma pending_complete_handshake:
  "complete_handshake lib s timeout p = (r, s') \<Longrightarrow> pending s' \<le> pending s"
proof -
  assume run: "complete_handshake lib s timeout p = (r, s')"
  obtain r1 s1 where a: "send s p = (r1, s1)" by (cases "send s p")
  obtain r2 s2 where b: "recv lib s1 timeout = (r2, s2)" by (cases "recv lib s1 timeout")
  have s1: "pending s1 = pending s" using a by (rule pending_send)
  have s2: "pending s2 \<le> pending s1" using b by (rule pending_recv)
  have "pending s' = pending s1 \<or> pending s' = pending s2"
    using run a b
    by (auto simp: complete_handshake_def Let_def pending_def logger_def
             split: sum.splits option.splits if_splits)
  with s1 s2 show ?thesis by auto
qed

lemma pending_perform_handshake:
  "perform_handshake lib s timeout = (r, s') \<Longrightarrow> pending s' \<le> pending s"
proof -
  assume run: "perform_handshake lib s timeout = (r, s')"
  obtain r1 s1 where a: "recv lib s timeout = (r1, s1)" by (cases "recv lib s timeout")
  have s1: "pending s1 \<le> pending s" using a by (rule pending_recv)
  have upd: "\<And>v. pending (s1\<lparr>rpc_version := v\<rparr>) = pending s1"
    by (simp add: pending_def)
  have "pending s' \<le> pending s1"
    using run a upd
    by (auto simp: perform_handshake_def Let_def
             split: sum.splits if_splits dest!: pending_complete_handshake)
  with s1 show ?thesis by simp
qed

lemma pending_handle_message:
  "handle_message lib s payload = (r, s') \<Longrightarrow> pending s' \<le> pending s"
proof -
  assume run: "handle_message lib s payload = (r, s')"
  have id: "pending (s\<lparr>identified := True\<rparr>) = pending s"
    by (simp add: pending_def)
  have put: "\<And>k d. pending (put_response k d s) = pending s"
    by (simp add: pending_def put_response_def)
  show ?thesis
    using run id put
    by (auto simp: handle_message_def store_response_def Let_def
             split: sum.splits if_splits option.splits prod.splits
             dest!: pending_perform_handshake)
qed

text \<open>
  \<open>_receiver_loop\<close>. The thread either leaves the loop and runs the three lines after it,
  or dies with the exception that \<open>_handle_message\<close> let through, and then runs none of them.
\<close>

datatype loop_outcome =
    Exited obs_connection_manager
  | Crashed error obs_connection_manager

definition receiver_exit :: "obs_connection_manager \<Rightarrow> obs_connection_manager" where
  "receiver_exit s = safe_close (s\<lparr>identified := False, receiver_running := False\<rparr>)"

function receiver_loop :: "stdlib \<Rightarrow> obs_connection_manager \<Rightarrow> loop_outcome" where
  "receiver_loop lib s =
     (if \<not> receiver_running s then Exited (receiver_exit s)
      else case ws s of
        None \<Rightarrow> Exited (receiver_exit s)
      | Some sock \<Rightarrow>
          (case sock_recv sock of
             (ev, sock') \<Rightarrow>
               (let s1 = s\<lparr>ws := Some sock'\<rparr>
                in case ev of
                     ConnectionClosed \<Rightarrow>
                       Exited (receiver_exit (logger Warning ''Lost connection to OBS WebSocket'' s1))
                   | SocketOSError \<Rightarrow>
                       Exited (receiver_exit (logger Warning ''OBS WebSocket recv interrupted'' s1))
                   | WebSocketError \<Rightarrow>
                       Exited (receiver_exit (logger Error ''Unexpected OBS WebSocket error'' s1))
                   | UnexpectedError \<Rightarrow>
                       Exited (receiver_exit (logger Error ''Unexpected OBS WebSocket error'' s1))
                   | NoMessage \<Rightarrow> receiver_loop lib s1
                   | Frame message \<Rightarrow>
                       (case json_loads lib message of
                          None \<Rightarrow>
                            receiver_loop lib (logger Warning ''Received malformed OBS payload'' s1)
                        | Some payload \<Rightarrow>
                            (case handle_message lib s1 payload of
                               (Inl e, s2) \<Rightarrow> Crashed e s2
                             | (Inr _, s2) \<Rightarrow> receiver_loop lib s2)))))"
  by pat_completeness auto
termination
proof (relation "measure (\<lambda>(lib, s). pending s)")
  show "wf (measure (\<lambda>(lib, s). pending s))" by simp
next
  fix lib :: stdlib and s s1 :: obs_connection_manager and sock sock' :: socket and ev
  assume "ws s = Some sock" "(ev, sock') = sock_recv sock" "s1 = s\<lparr>ws := Some sock'\<rparr>"
    "ev = NoMessage"
  then show "((lib, s1), (lib, s)) \<in> measure (\<lambda>(lib, s). pending s)"
    using sock_recv_consumes [of sock ev sock'] by (simp add: pending_def)
next
  fix lib :: stdlib and s s1 :: obs_connection_manager and sock sock' :: socket
    and ev message
  assume "ws s = Some sock" "(ev, sock') = sock_recv sock" "s1 = s\<lparr>ws := Some sock'\<rparr>"
    "ev = Frame message"
  then show "((lib, logger Warning ''Received malformed OBS payload'' s1), (lib, s))
      \<in> measure (\<lambda>(lib, s). pending s)"
    using sock_recv_consumes [of sock ev sock'] by (simp add: pending_def logger_def)
next
  fix lib :: stdlib and s s1 s2 :: obs_connection_manager and sock sock' :: socket
    and ev message payload and r :: "error + unit"
  assume "ws s = Some sock" "(ev, sock') = sock_recv sock" "s1 = s\<lparr>ws := Some sock'\<rparr>"
    "ev = Frame message" "(r, s2) = handle_message lib s1 payload"
  then show "((lib, s2), (lib, s)) \<in> measure (\<lambda>(lib, s). pending s)"
    using sock_recv_consumes [of sock ev sock'] pending_handle_message [of lib s1 payload r s2]
    by (simp add: pending_def)
qed

declare receiver_loop.simps [simp del]

subsection \<open>Waiting for a response\<close>

text \<open>
  \<open>_wait_for_response\<close> shares the \<open>responses\<close> dictionary with the receiver thread. A tick is
  one pass of the \<open>while True\<close> loop, as the caller sees it: the responses the receiver has put
  since the caller last held the lock (key and data, in order), and what \<open>time.perf_counter()\<close>
  returns in that pass. The first tick's puts are those between the send and the \<open>with\<close>
  statement; every later tick's are those made during \<open>wait(timeout=remaining)\<close>. With no tick
  left the caller is still blocked in \<open>wait\<close>: the result is \<open>None\<close>. Each call of \<open>wait\<close> is
  recorded with its timeout.
\<close>

type_synonym tick = "(json \<times> json) list \<times> real"

definition deliver :: "(json \<times> json) list \<Rightarrow> obs_connection_manager \<Rightarrow> obs_connection_manager" where
  "deliver puts s = foldl (\<lambda>s' (k, data). put_response k data s') s puts"

fun wait_loop ::
  "obs_connection_manager \<Rightarrow> string \<Rightarrow> real \<Rightarrow> tick list \<Rightarrow>
   (error + json) option \<times> obs_connection_manager" where
  "wait_loop s request_id deadline [] = (None, s)"
| "wait_loop s request_id deadline ((puts, now) # ticks) =
     (let s1 = deliver puts s;
          remaining = deadline - now
      in if remaining \<le> 0
         then (Some (Inl (OBSResponseTimeoutError request_id)), s1)
         else
           (case map_of (responses s1) (JStr request_id) of
              Some data \<Rightarrow>
                (Some (Inr data), s1\<lparr>responses := AList.delete (JStr request_id) (responses s1)\<rparr>)
            | None \<Rightarrow>
                wait_loop (s1\<lparr>waits := waits s1 @ [remaining]\<rparr>) request_id deadline ticks))"

text \<open>\<open>t0\<close> is the reading of \<open>time.perf_counter()\<close> the deadline is computed from.\<close>

definition wait_for_response ::
  "obs_connection_manager \<Rightarrow> string \<Rightarrow> real option \<Rightarrow> real \<Rightarrow> tick list \<Rightarrow>
   (error + json) option \<times> obs_connection_manager" where
  "wait_for_response s request_id timeout t0 ticks =
     (let deadline = t0 + timeout_or timeout (request_timeout (config s))
      in wait_loop s request_id deadline ticks)"

subsection \<open>Requests\<close>

text \<open>\<open>OBSRequestError.__init__\<close>, called with a \<open>status\<close> that is a \<open>dict\<close>.\<close>

definition request_error :: "string \<Rightarrow> json \<Rightarrow> error + error" where
  "request_error request_type status =
     (case dict_get status ''comment'' JNull of
        Inl e \<Rightarrow> Inl e
      | Inr comment \<Rightarrow>
     (case dict_get status ''message'' JNull of
        Inl e \<Rightarrow> Inl e
      | Inr msg \<Rightarrow>
     (case dict_get status ''code'' JNull of
        Inl e \<Rightarrow> Inl e
      | Inr code \<Rightarrow>
          (let message = py_or comment (py_or msg (JStr ''Unknown OBS request failure''))
           in Inr (OBSRequestError request_type status code message)))))"

text \<open>
  \<open>send_request\<close>. \<open>request_data\<close> is \<open>None\<close> or a \<open>dict\<close>. The first component of the result
  is \<open>None\<close> while the call is blocked. \<open>request_payload\<close> is the dictionary the method binds
  to \<open>payload\<close>. The \<open>with self._send_lock\<close> statement acquires the lock, runs \<open>_send\<close>, and
  releases the lock whether or not \<open>_send\<close> raised.
\<close>

definition request_payload :: "string \<Rightarrow> string \<Rightarrow> (string \<times> json) list option \<Rightarrow> json" where
  "request_payload request_type request_id request_data =
     JObj [(''op'', JInt 6),
           (''d'', JObj [(''requestType'', JStr request_type),
                        (''requestId'', JStr request_id),
                        (''requestData'',
                         (case request_data of
                            None \<Rightarrow> JObj []
                          | Some kvs \<Rightarrow> py_or (JObj kvs) (JObj [])))])]"

definition send_request ::
  "stdlib \<Rightarrow> obs_connection_manager \<Rightarrow> string \<Rightarrow> (string \<times> json) list option \<Rightarrow>
   real option \<Rightarrow> real \<Rightarrow> tick list \<Rightarrow> (error + json) option \<times> obs_connection_manager" where
  "send_request lib s request_type request_data timeout t0 ticks =
     (if \<not> is_connected s
      then (Some (Inl (OBSNotConnectedError ''OBS WebSocket is not connected'')), s)
      else
        (let request_id = uuid4 lib (uuid_calls s);
             s0 = s\<lparr>uuid_calls := Suc (uuid_calls s)\<rparr>;
             payload = request_payload request_type request_id request_data;
             locked = s0\<lparr>send_events := send_events s0 @ [SendLockAcquired]\<rparr>
         in case send locked payload of
              (Inl e, s') \<Rightarrow>
                (Some (Inl e), s'\<lparr>send_events := send_events s' @ [SendLockReleased]\<rparr>)
            | (Inr _, s') \<Rightarrow>
           (let s1 = s'\<lparr>send_events := send_events s' @ [SendLockReleased]\<rparr>
            in case wait_for_response s1 request_id timeout t0 ticks of
              (None, s2) \<Rightarrow> (None, s2)
            | (Some (Inl e), s2) \<Rightarrow> (Some (Inl e), s2)
            | (Some (Inr response), s2) \<Rightarrow>
           (case dict_get response ''requestStatus'' (JObj []) of
              Inl e \<Rightarrow> (Some (Inl e), s2)
            | Inr status \<Rightarrow>
           (case dict_get status ''result'' (JBool False) of
              Inl e \<Rightarrow> (Some (Inl e), s2)
            | Inr result \<Rightarrow>
                if \<not> truthy result
                then (case request_error request_type status of
                        Inl e \<Rightarrow> (Some (Inl e), s2)
                      | Inr e \<Rightarrow> (Some (Inl e), s2))
                else (Some (dict_get response ''responseData'' (JObj [])), s2))))))"

subsection \<open>Connection lifecycle\<close>

definition start_receiver :: "obs_connection_manager \<Rightarrow> obs_connection_manager" where
  "start_receiver s =
     (if receiver_thread s = Some True then s
      else s\<lparr>receiver_running := True, receiver_thread := Some True\<rparr>)"

text \<open>
  \<open>_stop_receiver\<close>: \<open>close()\<close> may raise \<open>WebSocketException\<close>, which is swallowed; the \<open>join\<close>
  waits at most a second and changes no field.
\<close>

definition stop_receiver :: "obs_connection_manager \<Rightarrow> obs_connection_manager" where
  "stop_receiver s =
     (let s1 = s\<lparr>receiver_running := False\<rparr>;
          s2 = (if receiver_thread s1 = Some True
                then (case ws s1 of
                        None \<Rightarrow> s1
                      | Some sock \<Rightarrow> s1\<lparr>ws := Some (sock_close sock)\<rparr>)
                else s1)
      in s2\<lparr>receiver_thread := None\<rparr>)"

definition disconnect :: "obs_connection_manager \<Rightarrow> obs_connection_manager" where
  "disconnect s = (safe_close (stop_receiver s))\<lparr>identified := False\<rparr>"

definition do_connect ::
  "stdlib \<Rightarrow> obs_connection_manager \<Rightarrow> real option \<Rightarrow> (error + unit) \<times> obs_connection_manager" where
  "do_connect lib s timeout =
     (let connect_timeout = timeout_or timeout (request_timeout (config s));
          s0 = logger Debug ''Connecting to OBS WebSocket'' s
      in case create_connection lib (as_url (config s0)) connect_timeout of
           None \<Rightarrow> (Inl (OBSConnectionError ''Failed to connect to OBS''), s0)
         | Some sock \<Rightarrow>
             (let s1 = s0\<lparr>ws := Some sock\<rparr>
              in case perform_handshake lib s1 connect_timeout of
                   (Inl e, s2) \<Rightarrow> (Inl e, safe_close s2)
                 | (Inr _, s2) \<Rightarrow> (Inr (), start_receiver s2)))"

definition connect ::
  "stdlib \<Rightarrow> obs_connection_manager \<Rightarrow> real option \<Rightarrow> (error + unit) \<times> obs_connection_manager" where
  "connect lib s timeout =
     (if is_connected s then (Inr (), s)
      else case do_connect lib s timeout of
             (Inr _, s1) \<Rightarrow> (Inr (), s1)
           | (Inl e, s1) \<Rightarrow>
               if is_obs_connection_error e then (Inl e, s1)
               else (Inl (OBSConnectionError ''''), safe_close s1))"

definition ensure_connection ::
  "stdlib \<Rightarrow> obs_connection_manager \<Rightarrow> (error + unit) \<times> obs_connection_manager" where
  "ensure_connection lib s = (if \<not> is_connected s then connect lib s None else (Inr (), s))"

text \<open>\<open>update_config\<close>: every exception \<open>connect\<close> raises is an \<open>OBSConnectionError\<close>.\<close>

definition update_config ::
  "stdlib \<Rightarrow> obs_connection_manager \<Rightarrow> config_changes \<Rightarrow>
   obs_connection_config \<times> obs_connection_manager" where
  "update_config lib s kwargs =
     (let new_config = replace (config s) kwargs
      in if new_config = config s then (config s, s)
         else
           (let reconnect_required =
                  (host new_config \<noteq> host (config s)
                   \<or> port new_config \<noteq> port (config s)
                   \<or> use_ssl new_config \<noteq> use_ssl (config s)
                   \<or> password new_config \<noteq> password (config s));
                was_connected = is_connected s;
                s1 = s\<lparr>config := new_config\<rparr>
            in if was_connected \<and> reconnect_required
               then
                 (let s2 = logger Info ''Reconnecting to OBS WebSocket after configuration change'' s1
                  in case connect lib (disconnect s2) None of
                       (Inl exc, s3) \<Rightarrow>
                         (let s4 = logger Error ''Failed to reconnect to OBS'' s3 in (config s4, s4))
                     | (Inr _, s3) \<Rightarrow> (config s3, s3))
               else (config s1, s1)))"

section \<open>The Twitchat broadcaster\<close>

record twitchat_event_broadcaster =
  connection :: obs_connection_manager
  namespace :: string

text \<open>
  \<open>str.isspace\<close> for a code point below 256: tab to carriage return, the four separators
  from 28 to 31, the space, NEL (133) and the no-break space (160).
\<close>

definition is_space :: "char \<Rightarrow> bool" where
  "is_space c =
     (let n = (of_char c :: nat)
      in (9 \<le> n \<and> n \<le> 13) \<or> (28 \<le> n \<and> n \<le> 32) \<or> n = 133 \<or> n = 160)"

definition strip :: "string \<Rightarrow> string" where
  "strip s = rev (dropWhile is_space (rev (dropWhile is_space s)))"

definition set_namespace ::
  "twitchat_event_broadcaster \<Rightarrow> string \<Rightarrow> error + twitchat_event_broadcaster" where
  "set_namespace b ns =
     (if ns = [] then Inl (ValueError ''Namespace cannot be empty'')
      else Inr (b\<lparr>namespace := ns\<rparr>))"

text \<open>\<open>_format_event_type\<close>.\<close>

definition format_event_type :: "twitchat_event_broadcaster \<Rightarrow> string \<Rightarrow> string" where
  "format_event_type b action =
     (let action' = strip action
      in if CHR '':'' \<in> set action' then action'
         else namespace b @ '':'' @ action')"

text \<open>\<open>broadcast\<close>. \<open>payload\<close> is \<open>None\<close> or a \<open>dict\<close>.\<close>

definition broadcast ::
  "stdlib \<Rightarrow> twitchat_event_broadcaster \<Rightarrow> string \<Rightarrow> (string \<times> json) list option \<Rightarrow>
   real option \<Rightarrow> real \<Rightarrow> tick list \<Rightarrow> (error + json) option \<times> twitchat_event_broadcaster" where
  "broadcast lib b action payload timeout t0 ticks =
     (if action = [] then (Some (Inl (ValueError ''Action identifier must be provided'')), b)
      else
        (let event_type = format_event_type b action;
             event_data = (case payload of
                             None \<Rightarrow> JObj []
                           | Some kvs \<Rightarrow> py_or (JObj kvs) (JObj []));
             c = logger Debug ''Broadcasting Twitchat event'' (connection b)
         in case send_request lib c ''BroadcastCustomEvent''
                   (Some [(''eventType'', JStr event_type), (''eventData'', event_data)])
                   timeout t0 ticks of
              (response, c') \<Rightarrow> (response, b\<lparr>connection := c'\<rparr>)))"

text \<open>The three classes of the \<open>except\<close> clause of \<open>safe_broadcast\<close>.\<close>

fun is_expected_error :: "error \<Rightarrow> bool" where
  "is_expected_error (OBSNotConnectedError _) = True"
| "is_expected_error (OBSRequestError _ _ _ _) = True"
| "is_expected_error (OBSResponseTimeoutError _) = True"
| "is_expected_error _ = False"

text \<open>\<open>safe_broadcast\<close>.\<close>

definition safe_broadcast ::
  "stdlib \<Rightarrow> twitchat_event_broadcaster \<Rightarrow> string \<Rightarrow> (string \<times> json) list option \<Rightarrow>
   real option \<Rightarrow> real \<Rightarrow> tick list \<Rightarrow> (error + bool) option \<times> twitchat_event_broadcaster" where
  "safe_broadcast lib b action payload timeout t0 ticks =
     (case broadcast lib b action payload timeout t0 ticks of
        (None, b') \<Rightarrow> (None, b')
      | (Some (Inl exc), b') \<Rightarrow>
          if is_expected_error exc
          then (Some (Inr False),
                b'\<lparr>connection := logger Error ''Failed to broadcast Twitchat event'' (connection b')\<rparr>)
          else (Some (Inl exc), b')
      | (Some (Inr _), b') \<Rightarrow> (Some (Inr True), b'))"

section \<open>Example values\<close>

text \<open>
  A library instance for the concrete runs below: \<open>json.loads\<close> on the frame texts that occur
  in them, a stand-in digest, a network on which no connection can be made, and request ids
  \<open>r\<close>, \<open>rr\<close>, \<open>rrr\<close> and so on, which never repeat.
\<close>

definition example_frames :: "(string \<times> json) list" where
  "example_frames =
     [(''[]'', JArr []),
      (''{\"op\": 0, \"d\": {\"rpcVersion\": 1}}'',
         JObj [(''op'', JInt 0), (''d'', JObj [(''rpcVersion'', JInt 1)])]),
      (''{\"op\": 0, \"d\": {\"rpcVersion\": 1, \"authentication\": {\"challenge\": \"c\", \"salt\": \"s\"}}}'',
         JObj [(''op'', JInt 0),
               (''d'', JObj [(''rpcVersion'', JInt 1),
                            (''authentication'',
                               JObj [(''challenge'', JStr ''c''), (''salt'', JStr ''s'')])])]),
      (''{\"op\": 2, \"d\": {\"negotiatedRpcVersion\": 1}}'',
         JObj [(''op'', JInt 2), (''d'', JObj [(''negotiatedRpcVersion'', JInt 1)])]),
      (''{\"op\": 7, \"d\": {\"requestId\": \"r\", \"requestStatus\": {\"result\": true, \"code\": 100}}}'',
         JObj [(''op'', JInt 7),
               (''d'', JObj [(''requestId'', JStr ''r''),
                            (''requestStatus'',
                               JObj [(''result'', JBool True), (''code'', JInt 100)])])]),
      (''{\"op\": 7, \"d\": {\"requestId\": \"\"}}'',
         JObj [(''op'', JInt 7), (''d'', JObj [(''requestId'', JStr '''')])])]"

definition example_lib :: stdlib where
  "example_lib =
     \<lparr>sha256 = rev, json_loads = map_of example_frames, int_of_str = (\<lambda>s. None),
      create_connection = (\<lambda>url timeout. None),
      uuid4 = (\<lambda>n. replicate (Suc n) CHR ''r'')\<rparr>"

definition example_socket :: "recv_event list \<Rightarrow> socket" where
  "example_socket evs =
     \<lparr>incoming = evs, outgoing = [], send_fails = False, sock_timeout = None,
      sock_closed = False\<rparr>"

text \<open>A manager that is connected and identified, with a receiver thread.\<close>

definition example_manager :: "recv_event list \<Rightarrow> obs_connection_manager" where
  "example_manager evs =
     (init None)\<lparr>ws := Some (example_socket evs), identified := True,
                 receiver_thread := Some True, receiver_running := True\<rparr>"

text \<open>A response that reports success, one that reports a failure, and a broadcaster.\<close>

definition example_response :: json where
  "example_response =
     JObj [(''requestId'', JStr ''r''),
           (''requestStatus'', JObj [(''result'', JBool True), (''code'', JInt 100)]),
           (''responseData'', JObj [(''obsVersion'', JStr ''30.0.0'')])]"

definition rejected_response :: json where
  "rejected_response =
     JObj [(''requestId'', JStr ''r''),
           (''requestStatus'',
              JObj [(''result'', JBool False), (''code'', JInt 400), (''comment'', JStr ''bad'')])]"

definition example_broadcaster :: "obs_connection_manager \<Rightarrow> twitchat_event_broadcaster" where
  "example_broadcaster c = \<lparr>connection = c, namespace = ''twitchat''\<rparr>"

section \<open>Properties\<close>

subsection \<open>base64 text is ASCII\<close>

lemma b64_digit_ascii: "(of_char (b64_digit n) :: nat) < 128"
proof -
  have "n mod 64 < length b64_alphabet"
    by (simp add: b64_alphabet_def)
  then have "b64_digit n \<in> set b64_alphabet"
    unfolding b64_digit_def by (rule nth_mem)
  moreover have "\<forall>c \<in> set b64_alphabet. (of_char c :: nat) < 128"
    by (simp add: b64_alphabet_def)
  ultimately show ?thesis by blast
qed

lemma b64encode_ascii: "list_all (\<lambda>c. (of_char c :: nat) < 128) (b64encode bs)"
  by (induction bs rule: b64encode.induct) (simp_all add: Let_def b64_digit_ascii)

lemma utf8_decode_ascii:
  "list_all (\<lambda>c. (of_char c :: nat) < 128) bs \<Longrightarrow> utf8_decode bs = Some bs"
  by (induction bs rule: utf8_decode.induct) (simp_all add: Let_def)

subsection \<open>The connection URL\<close>

lemma as_url_default: "as_url default_config = ''ws://127.0.0.1:4455''"
  by (simp add: as_url_def default_config_def string_of_int_def string_of_nat.simps
        decimal_digit_def Let_def)

subsection \<open>The authentication response\<close>

text \<open>
  C1. For a payload whose \<open>challenge\<close> and \<open>salt\<close> are strings, \<open>_build_auth_response\<close> returns
  base64(SHA256(base64(SHA256(password + salt)) + challenge)): the first digest is base64
  encoded before it is joined with the challenge and hashed again, and the result is the
  base64 text of the second digest. The value is a function of the password, the salt and
  the challenge alone.
\<close>

theorem build_auth_response_formula:
  assumes "map_of auth ''challenge'' = Some (JStr challenge)"
    and "map_of auth ''salt'' = Some (JStr salt)"
  shows "build_auth_response lib cfg (JObj auth) =
           Inr (b64encode (sha256 lib
                  (b64encode (sha256 lib (utf8_encode (password cfg @ salt)))
                   @ utf8_encode challenge)))"
proof -
  let ?secret_b64 = "b64encode (sha256 lib (utf8_encode (password cfg @ salt)))"
  let ?digest = "sha256 lib (?secret_b64 @ utf8_encode challenge)"
  have "utf8_decode (b64encode ?digest) = Some (b64encode ?digest)"
    by (rule utf8_decode_ascii) (rule b64encode_ascii)
  with assms show ?thesis
    by (simp add: build_auth_response_def)
qed

text \<open>The golden vector: password \<open>pw\<close>, salt \<open>s\<close>, challenge \<open>c\<close>.\<close>

theorem build_auth_response_golden:
  "build_auth_response example_lib (default_config\<lparr>password := ''pw''\<rparr>)
     (JObj [(''challenge'', JStr ''c''), (''salt'', JStr ''s'')])
   = Inr (b64encode (sha256 example_lib (b64encode (sha256 example_lib ''pws'') @ ''c'')))"
  using build_auth_response_formula
    [of "[(''challenge'', JStr ''c''), (''salt'', JStr ''s'')]" "''c''" "''s''"
        example_lib "default_config\<lparr>password := ''pw''\<rparr>"]
  by (simp add: utf8_encode_def utf8_char_def default_config_def)


subsection \<open>Waiting for a response\<close>

lemma deliver_Nil [simp]: "deliver [] s = s"
  by (simp add: deliver_def)

lemma deliver_Cons [simp]: "deliver ((k, data) # puts) s = deliver puts (put_response k data s)"
  by (simp add: deliver_def)

lemma deliver_frame [simp]:
  "ws (deliver puts s) = ws s \<and> config (deliver puts s) = config s
   \<and> identified (deliver puts s) = identified s \<and> logged (deliver puts s) = logged s
   \<and> waits (deliver puts s) = waits s \<and> send_events (deliver puts s) = send_events s
   \<and> uuid_calls (deliver puts s) = uuid_calls s"
proof (induction puts arbitrary: s)
  case Nil
  show ?case by simp
next
  case (Cons p puts)
  obtain k data where p: "p = (k, data)" by (cases p)
  show ?case
    unfolding p deliver_Cons using Cons.IH [of "put_response k data s"]
    by (simp add: put_response_def)
qed

lemma wait_loop_frame:
  "wait_loop s request_id deadline ticks = (r, s') \<Longrightarrow>
   ws s' = ws s \<and> config s' = config s \<and> identified s' = identified s \<and> logged s' = logged s
   \<and> send_events s' = send_events s \<and> uuid_calls s' = uuid_calls s"
proof (induction ticks arbitrary: s)
  case Nil
  then show ?case by simp
next
  case (Cons tick ticks)
  obtain puts now where tick: "tick = (puts, now)" by (cases tick)
  let ?s1 = "deliver puts s"
  show ?case
  proof (cases "deadline - now \<le> 0 \<or> map_of (responses ?s1) (JStr request_id) \<noteq> None")
    case True
    with Cons.prems tick show ?thesis
      by (auto simp: Let_def split: if_splits option.splits)
  next
    case False
    with Cons.prems tick
    have "wait_loop (?s1\<lparr>waits := waits ?s1 @ [deadline - now]\<rparr>) request_id deadline ticks
            = (r, s')"
      by (simp add: Let_def)
    from Cons.IH [OF this] show ?thesis by simp
  qed
qed

text \<open>
  A timeout is the only error of the wait, and it is raised only in a pass whose clock
  reading has reached the deadline.
\<close>

lemma wait_loop_error:
  "wait_loop s request_id deadline ticks = (Some (Inl e), s') \<Longrightarrow>
   e = OBSResponseTimeoutError request_id \<and> list_ex (\<lambda>(puts, now). deadline \<le> now) ticks"
proof (induction ticks arbitrary: s)
  case Nil
  then show ?case by simp
next
  case (Cons tick ticks)
  obtain puts now where tick: "tick = (puts, now)" by (cases tick)
  let ?s1 = "deliver puts s"
  show ?case
  proof (cases "deadline - now \<le> 0")
    case True
    with Cons.prems tick show ?thesis by (simp add: Let_def)
  next
    case False
    with Cons.prems tick
    have "wait_loop (?s1\<lparr>waits := waits ?s1 @ [deadline - now]\<rparr>) request_id deadline ticks
            = (Some (Inl e), s')"
      by (simp add: Let_def split: option.splits)
    from Cons.IH [OF this] tick show ?thesis by simp
  qed
qed

text \<open>The wait ends at the latest in the first pass that reads the clock at the deadline.\<close>

lemma wait_loop_ends:
  "list_ex (\<lambda>(puts, now). deadline \<le> now) ticks \<Longrightarrow>
   fst (wait_loop s request_id deadline ticks) \<noteq> None"
proof (induction ticks arbitrary: s)
  case Nil
  then show ?case by simp
next
  case (Cons tick ticks)
  obtain puts now where tick: "tick = (puts, now)" by (cases tick)
  show ?case
  proof (cases "deadline \<le> now")
    case True
    with tick show ?thesis by (simp add: Let_def)
  next
    case False
    with Cons.prems tick have "list_ex (\<lambda>(puts, now). deadline \<le> now) ticks" by simp
    from Cons.IH [OF this] tick False show ?thesis
      by (simp add: Let_def split: option.splits)
  qed
qed

text \<open>
  The calls of \<open>wait\<close> made by one call of the method: one for each of its first passes,
  each before the deadline, and each with the time that was left in that pass as timeout.
\<close>

lemma wait_loop_waits:
  "wait_loop s request_id deadline ticks = (r, s') \<Longrightarrow>
   \<exists>k \<le> length ticks.
     waits s' = waits s @ map (\<lambda>(puts, now). deadline - now) (take k ticks)
     \<and> list_all (\<lambda>(puts, now). now < deadline) (take k ticks)"
proof (induction ticks arbitrary: s)
  case Nil
  then show ?case by simp
next
  case (Cons tick ticks)
  obtain puts now where tick: "tick = (puts, now)" by (cases tick)
  let ?s1 = "deliver puts s"
  show ?case
  proof (cases "deadline - now \<le> 0 \<or> map_of (responses ?s1) (JStr request_id) \<noteq> None")
    case True
    with Cons.prems tick have "waits s' = waits s"
      by (auto simp: Let_def split: if_splits option.splits)
    then have "waits s' = waits s @ map (\<lambda>(puts, now). deadline - now) (take 0 (tick # ticks))
        \<and> list_all (\<lambda>(puts, now). now < deadline) (take 0 (tick # ticks))"
      by simp
    then show ?thesis by blast
  next
    case False
    with Cons.prems tick
    have "wait_loop (?s1\<lparr>waits := waits ?s1 @ [deadline - now]\<rparr>) request_id deadline ticks
            = (r, s')"
      by (simp add: Let_def)
    from Cons.IH [OF this] obtain k where k: "k \<le> length ticks"
      "waits s' = (waits s @ [deadline - now]) @ map (\<lambda>(puts, now). deadline - now) (take k ticks)"
      "list_all (\<lambda>(puts, now). now < deadline) (take k ticks)"
      by auto
    from k False tick
    have "Suc k \<le> length (tick # ticks)
        \<and> waits s' = waits s @ map (\<lambda>(puts, now). deadline - now) (take (Suc k) (tick # ticks))
        \<and> list_all (\<lambda>(puts, now). now < deadline) (take (Suc k) (tick # ticks))"
      by simp
    then show ?thesis by blast
  qed
qed

text \<open>
  C2, as the claim states it, fails: the loop does not look for the entry first. A caller
  waits with a timeout of 5 from clock reading 0. It wakes at 1 with nothing stored, waits
  again (for the 4 that are left), and the response for its id is put during that wait; it
  then reads the clock at 5. The entry is stored at that wake, yet the call raises the
  timeout error and leaves the entry in the dictionary.
\<close>

theorem wait_for_response_timeout_despite_entry:
  "wait_for_response (init None) ''r'' (Some 5) 0
      [([], 1), ([(JStr ''r'', example_response)], 5)]
   = (Some (Inl (OBSResponseTimeoutError ''r'')),
      (init None)\<lparr>responses := [(JStr ''r'', example_response)], notified := 1, waits := [4]\<rparr>)"
  by (simp add: wait_for_response_def timeout_or_def init_def default_config_def
        put_response_def Let_def)

text \<open>
  C2, amended. Every pass of the loop of \<open>_wait_for_response\<close> first recomputes the remaining
  time from the clock, and raises the timeout error when none is left, whether or not an
  entry for the id is stored; the pass removes nothing then. Only with time left does it
  look for the entry: a stored entry is removed and returned without another wait, and the
  other entries stay. With time left and no entry, the caller calls \<open>wait\<close> on the condition
  with the remaining time of this pass as the timeout, and goes on with the next wake; if
  there is no further wake it is blocked in that call.
\<close>

theorem wait_for_response_pass:
  "(t0 + timeout_or timeout (request_timeout (config s)) \<le> now \<longrightarrow>
      wait_for_response s request_id timeout t0 ((puts, now) # ticks)
        = (Some (Inl (OBSResponseTimeoutError request_id)), deliver puts s))
   \<and> (now < t0 + timeout_or timeout (request_timeout (config s))
        \<and> map_of (responses (deliver puts s)) (JStr request_id) = Some data \<longrightarrow>
      (\<exists>s'. wait_for_response s request_id timeout t0 ((puts, now) # ticks) = (Some (Inr data), s')
            \<and> map_of (responses s') (JStr request_id) = None
            \<and> (\<forall>k. k \<noteq> JStr request_id \<longrightarrow>
                   map_of (responses s') k = map_of (responses (deliver puts s)) k)
            \<and> waits s' = waits s))
   \<and> (now < t0 + timeout_or timeout (request_timeout (config s))
        \<and> map_of (responses (deliver puts s)) (JStr request_id) = None \<longrightarrow>
      wait_for_response s request_id timeout t0 ((puts, now) # ticks)
        = wait_for_response
            ((deliver puts s)
               \<lparr>waits := waits s @ [t0 + timeout_or timeout (request_timeout (config s)) - now]\<rparr>)
            request_id timeout t0 ticks
      \<and> wait_for_response s request_id timeout t0 [(puts, now)]
        = (None,
           (deliver puts s)
             \<lparr>waits := waits s @ [t0 + timeout_or timeout (request_timeout (config s)) - now]\<rparr>))"
proof -
  let ?deadline = "t0 + timeout_or timeout (request_timeout (config s))"
  let ?s1 = "deliver puts s"
  let ?s2 = "?s1\<lparr>waits := waits s @ [?deadline - now]\<rparr>"
  have same_deadline: "t0 + timeout_or timeout (request_timeout (config ?s2)) = ?deadline"
    by simp
  have late: "wait_loop s request_id ?deadline ((puts, now) # ticks)
                = (Some (Inl (OBSResponseTimeoutError request_id)), ?s1)"
    if "?deadline \<le> now"
    using that by (simp add: Let_def)
  have found: "\<exists>s'. wait_loop s request_id ?deadline ((puts, now) # ticks) = (Some (Inr data), s')
            \<and> map_of (responses s') (JStr request_id) = None
            \<and> (\<forall>k. k \<noteq> JStr request_id \<longrightarrow> map_of (responses s') k = map_of (responses ?s1) k)
            \<and> waits s' = waits s"
    if "now < ?deadline" and "map_of (responses ?s1) (JStr request_id) = Some data"
    using that by (simp add: Let_def delete_conv)
  have absent: "wait_loop s request_id ?deadline ((puts, now) # ticks)
                  = wait_loop ?s2 request_id ?deadline ticks"
    if "now < ?deadline" and "map_of (responses ?s1) (JStr request_id) = None"
    using that by (simp add: Let_def)
  have blocked: "wait_loop s request_id ?deadline [(puts, now)] = (None, ?s2)"
    if "now < ?deadline" and "map_of (responses ?s1) (JStr request_id) = None"
    using that by (simp add: Let_def)
  from late found absent blocked same_deadline show ?thesis
    unfolding wait_for_response_def Let_def by simp
qed

theorem wait_for_response_pass_example:
  "wait_for_response (init None) ''r'' (Some 5) 0 [([(JStr ''r'', example_response)], 5)]
     = (Some (Inl (OBSResponseTimeoutError ''r'')),
        deliver [(JStr ''r'', example_response)] (init None))
   \<and> fst (wait_for_response (init None) ''r'' (Some 5) 0 [([(JStr ''r'', example_response)], 4)])
       = Some (Inr example_response)
   \<and> wait_for_response (init None) ''r'' (Some 5) 0 [([], 4), ([(JStr ''r'', example_response)], 4.5)]
       = wait_for_response ((init None)\<lparr>waits := [1]\<rparr>) ''r'' (Some 5) 0
           [([(JStr ''r'', example_response)], 4.5)]
   \<and> wait_for_response (init None) ''r'' (Some 5) 0 [([], 4)]
       = (None, (init None)\<lparr>waits := [1]\<rparr>)"
  using wait_for_response_pass
    [of 0 "Some 5" "init None" 5 "''r''" "[(JStr ''r'', example_response)]" "[]" example_response]
    wait_for_response_pass
    [of 0 "Some 5" "init None" 4 "''r''" "[(JStr ''r'', example_response)]" "[]" example_response]
    wait_for_response_pass
    [of 0 "Some 5" "init None" 4 "''r''" "[]" "[([(JStr ''r'', example_response)], 4.5)]"
        example_response]
  by (auto simp: timeout_or_def init_def default_config_def put_response_def)

subsection \<open>The receiver loop and malformed frames\<close>

lemma receiver_loop_frame:
  assumes "receiver_running s" and "ws s = Some sock" and "\<not> sock_closed sock"
    and "incoming sock = Frame message # rest"
  shows "receiver_loop lib s =
           (case json_loads lib message of
              None \<Rightarrow>
                receiver_loop lib
                  (logger Warning ''Received malformed OBS payload''
                     (s\<lparr>ws := Some (sock\<lparr>incoming := rest\<rparr>)\<rparr>))
            | Some payload \<Rightarrow>
                (case handle_message lib (s\<lparr>ws := Some (sock\<lparr>incoming := rest\<rparr>)\<rparr>) payload of
                   (Inl e, s2) \<Rightarrow> Crashed e s2
                 | (Inr u, s2) \<Rightarrow> receiver_loop lib s2))"
  using assms
  by (subst receiver_loop.simps) (simp add: sock_recv_def Let_def)

text \<open>
  Text that is not JSON is logged and skipped: the loop goes on with the frames that follow.
\<close>

lemma receiver_loop_skips_invalid_json:
  assumes "receiver_running s" and "ws s = Some sock" and "\<not> sock_closed sock"
    and "incoming sock = Frame message # rest" and "json_loads lib message = None"
  shows "receiver_loop lib s =
           receiver_loop lib
             (logger Warning ''Received malformed OBS payload''
                (s\<lparr>ws := Some (sock\<lparr>incoming := rest\<rparr>)\<rparr>))"
  using receiver_loop_frame [OF assms(1-4), of lib] assms(5) by simp

text \<open>A document that is not an object has no \<open>get\<close>: the handler raises.\<close>

lemma handle_message_non_object:
  assumes "\<not> is_dict payload"
  shows "handle_message lib s payload = (Inl AttributeError, s)"
  using assms by (cases payload) (simp_all add: handle_message_def)

lemma receiver_loop_dies_on_non_object:
  assumes "receiver_running s" and "ws s = Some sock" and "\<not> sock_closed sock"
    and "incoming sock = Frame message # rest" and "json_loads lib message = Some payload"
    and "\<not> is_dict payload"
  shows "receiver_loop lib s = Crashed AttributeError (s\<lparr>ws := Some (sock\<lparr>incoming := rest\<rparr>)\<rparr>)"
  using receiver_loop_frame [OF assms(1-4), of lib] assms(5)
    handle_message_non_object [OF assms(6)]
  by simp

text \<open>
  The same happens one level down: an object whose \<open>d\<close> is not an object, under an opcode
  that reads \<open>d\<close>, and a response whose \<open>requestId\<close> is a list, which cannot be a key.
\<close>

lemma handle_message_non_object_data:
  "handle_message lib s (JObj [(''op'', JInt 7), (''d'', JStr ''x'')]) = (Inl AttributeError, s)"
  by (simp add: handle_message_def)

lemma handle_message_unhashable_request_id:
  "handle_message lib s (JObj [(''op'', JInt 7), (''d'', JObj [(''requestId'', JArr [JInt 1])])])
     = (Inl TypeError, s)"
  by (simp add: handle_message_def store_response_def)

text \<open>
  C3 does not hold of the code. The loop catches \<open>JSONDecodeError\<close> only, and
  \<open>_handle_message\<close> calls \<open>payload.get\<close> on whatever was decoded. On the text frame \<open>[]\<close>, which
  is valid JSON and not an object, the call raises \<open>AttributeError\<close>, nothing catches it, and
  the receiver thread ends there: the response frame that follows is never read, nothing is
  stored for request \<open>r\<close>, and the lines after the loop do not run, so the manager still
  reports that it is identified.
\<close>

theorem receiver_loop_dies_on_json_array:
  "receiver_loop example_lib
     (example_manager
        [Frame ''[]'',
         Frame ''{\"op\": 7, \"d\": {\"requestId\": \"r\", \"requestStatus\": {\"result\": true, \"code\": 100}}}''])
   = Crashed AttributeError
       (example_manager
          [Frame ''{\"op\": 7, \"d\": {\"requestId\": \"r\", \"requestStatus\": {\"result\": true, \"code\": 100}}}''])"
  by (subst receiver_loop.simps)
     (simp add: example_manager_def example_socket_def example_lib_def example_frames_def
        init_def sock_recv_def handle_message_def)

text \<open>
  The same stream with a frame that is not JSON at all in front: the frame is logged, the
  response is stored and the waiters are woken, and the loop leaves when the stream ends.
\<close>

lemma receiver_loop_survives_invalid_json:
  "receiver_loop example_lib
     (example_manager
        [Frame ''not json'',
         Frame ''{\"op\": 7, \"d\": {\"requestId\": \"r\", \"requestStatus\": {\"result\": true, \"code\": 100}}}''])
   = Exited
       ((init None)\<lparr>receiver_thread := Some True, notified := 1,
          responses :=
            [(JStr ''r'',
              JObj [(''requestId'', JStr ''r''),
                    (''requestStatus'', JObj [(''result'', JBool True), (''code'', JInt 100)])])],
          logged := [(Warning, ''Received malformed OBS payload''),
                     (Warning, ''Lost connection to OBS WebSocket'')]\<rparr>)"
  by (simp add: receiver_loop.simps example_manager_def example_socket_def example_lib_def
        example_frames_def init_def sock_recv_def handle_message_def store_response_def
        put_response_def logger_def receiver_exit_def safe_close_def)


subsection \<open>Responses without a request id\<close>

lemma py_eq_int_7_or_8:
  assumes "py_eq_int op 7 \<or> py_eq_int op 8"
  shows "\<not> py_eq_int op 0 \<and> \<not> py_eq_int op 2 \<and> \<not> py_eq_int op 5"
  using assms by (cases op) (auto split: if_splits)

lemma handle_message_response:
  assumes "dict_get payload ''op'' JNull = Inr op" and "py_eq_int op 7 \<or> py_eq_int op 8"
    and "dict_get payload ''d'' (JObj []) = Inr data"
  shows "handle_message lib s payload =
           (case dict_get data ''requestId'' JNull of
              Inl e \<Rightarrow> (Inl e, s)
            | Inr request_id \<Rightarrow>
                if truthy request_id then store_response s request_id data else (Inr (), s))"
  using assms py_eq_int_7_or_8 [OF assms(2)]
  by (auto simp: handle_message_def)

text \<open>
  C10. For a frame with opcode 7 or 8 whose \<open>d\<close> has no \<open>requestId\<close>, or an empty one (any
  value Python counts as false), \<open>_handle_message\<close> returns with the manager as it was:
  nothing is stored and \<open>notify_all\<close> is not called. If handling such a frame changes the
  \<open>responses\<close> dictionary or wakes the waiters, its \<open>requestId\<close> is present and not empty; and
  a non-empty id that can be a dictionary key has \<open>d\<close> stored under it, with one call of
  \<open>notify_all\<close>.
\<close>

theorem handle_message_response_needs_request_id:
  assumes "dict_get payload ''op'' JNull = Inr op" and "py_eq_int op 7 \<or> py_eq_int op 8"
    and "dict_get payload ''d'' (JObj []) = Inr data"
  shows "(\<forall>request_id. dict_get data ''requestId'' JNull = Inr request_id \<and> \<not> truthy request_id \<longrightarrow>
            handle_message lib s payload = (Inr (), s))
       \<and> (responses (snd (handle_message lib s payload)) \<noteq> responses s
            \<or> notified (snd (handle_message lib s payload)) \<noteq> notified s \<longrightarrow>
          (\<exists>request_id. dict_get data ''requestId'' JNull = Inr request_id \<and> truthy request_id))
       \<and> (\<forall>request_id k. dict_get data ''requestId'' JNull = Inr request_id \<and> truthy request_id
            \<and> dict_key request_id = Some k \<longrightarrow>
            handle_message lib s payload =
              (Inr (), s\<lparr>responses := AList.update k data (responses s),
                         notified := Suc (notified s)\<rparr>))"
proof -
  note step = handle_message_response [OF assms, of lib s]
  have a: "\<forall>request_id. dict_get data ''requestId'' JNull = Inr request_id \<and> \<not> truthy request_id \<longrightarrow>
            handle_message lib s payload = (Inr (), s)"
    using step by simp
  have b: "responses (snd (handle_message lib s payload)) \<noteq> responses s
            \<or> notified (snd (handle_message lib s payload)) \<noteq> notified s \<longrightarrow>
          (\<exists>request_id. dict_get data ''requestId'' JNull = Inr request_id \<and> truthy request_id)"
    using step by (cases "dict_get data ''requestId'' JNull") (auto split: if_splits)
  have c: "\<forall>request_id k. dict_get data ''requestId'' JNull = Inr request_id \<and> truthy request_id
            \<and> dict_key request_id = Some k \<longrightarrow>
            handle_message lib s payload =
              (Inr (), s\<lparr>responses := AList.update k data (responses s),
                         notified := Suc (notified s)\<rparr>)"
    using step by (simp add: store_response_def put_response_def)
  from a b c show ?thesis by blast
qed

theorem handle_message_response_examples:
  "handle_message example_lib (example_manager [])
      (JObj [(''op'', JInt 7), (''d'', JObj [(''requestId'', JStr '''')])])
     = (Inr (), example_manager [])
   \<and> handle_message example_lib (example_manager [])
      (JObj [(''op'', JInt 8), (''d'', JObj [(''requestStatus'', JObj [])])])
     = (Inr (), example_manager [])
   \<and> handle_message example_lib (example_manager [])
      (JObj [(''op'', JInt 7), (''d'', JObj [(''requestId'', JStr ''r'')])])
     = (Inr (), (example_manager [])
                  \<lparr>responses := [(JStr ''r'', JObj [(''requestId'', JStr ''r'')])],
                   notified := 1\<rparr>)"
  using handle_message_response_needs_request_id
    [of "JObj [(''op'', JInt 7), (''d'', JObj [(''requestId'', JStr '''')])]" "JInt 7"
        "JObj [(''requestId'', JStr '''')]" example_lib "example_manager []"]
    handle_message_response_needs_request_id
    [of "JObj [(''op'', JInt 8), (''d'', JObj [(''requestStatus'', JObj [])])]" "JInt 8"
        "JObj [(''requestStatus'', JObj [])]" example_lib "example_manager []"]
    handle_message_response_needs_request_id
    [of "JObj [(''op'', JInt 7), (''d'', JObj [(''requestId'', JStr ''r'')])]" "JInt 7"
        "JObj [(''requestId'', JStr ''r'')]" example_lib "example_manager []"]
  by (simp add: example_manager_def init_def)


subsection \<open>Requests\<close>

lemma send_accepted:
  assumes "ws s = Some sock" and "\<not> sock_closed sock" and "\<not> send_fails sock"
  shows "send s payload
           = (Inr (), s\<lparr>ws := Some (sock\<lparr>outgoing := outgoing sock @ [payload]\<rparr>),
                        send_events := send_events s @ [Sent payload]\<rparr>)"
  using assms by (simp add: send_def sock_send_def)

lemma wait_for_response_frame:
  "wait_for_response s request_id timeout t0 ticks = (r, s') \<Longrightarrow>
   ws s' = ws s \<and> config s' = config s \<and> identified s' = identified s \<and> logged s' = logged s
   \<and> send_events s' = send_events s \<and> uuid_calls s' = uuid_calls s"
  unfolding wait_for_response_def Let_def by (rule wait_loop_frame)

text \<open>
  A call that got past the connection check, on a socket that accepts the write: the id is
  drawn, the lock is taken, the frame is written, the lock is given back, and what is left
  is the wait for the id and the reading of the response.
\<close>

lemma send_request_sent:
  assumes "is_connected s" and "ws s = Some sock" and "\<not> sock_closed sock" and "\<not> send_fails sock"
  shows "send_request lib s request_type request_data timeout t0 ticks =
     (case wait_for_response
             (s\<lparr>uuid_calls := Suc (uuid_calls s),
                ws := Some (sock\<lparr>outgoing := outgoing sock
                      @ [request_payload request_type (uuid4 lib (uuid_calls s)) request_data]\<rparr>),
                send_events := send_events s
                      @ [SendLockAcquired,
                         Sent (request_payload request_type (uuid4 lib (uuid_calls s)) request_data),
                         SendLockReleased]\<rparr>)
             (uuid4 lib (uuid_calls s)) timeout t0 ticks of
        (None, s2) \<Rightarrow> (None, s2)
      | (Some (Inl e), s2) \<Rightarrow> (Some (Inl e), s2)
      | (Some (Inr response), s2) \<Rightarrow>
          (case dict_get response ''requestStatus'' (JObj []) of
             Inl e \<Rightarrow> (Some (Inl e), s2)
           | Inr status \<Rightarrow>
          (case dict_get status ''result'' (JBool False) of
             Inl e \<Rightarrow> (Some (Inl e), s2)
           | Inr result \<Rightarrow>
               if \<not> truthy result
               then (case request_error request_type status of
                       Inl e \<Rightarrow> (Some (Inl e), s2)
                     | Inr e \<Rightarrow> (Some (Inl e), s2))
               else (Some (dict_get response ''responseData'' (JObj [])), s2))))"
proof -
  let ?p = "request_payload request_type (uuid4 lib (uuid_calls s)) request_data"
  let ?locked = "s\<lparr>uuid_calls := Suc (uuid_calls s),
                     send_events := send_events s @ [SendLockAcquired]\<rparr>"
  have "ws ?locked = Some sock" using assms(2) by simp
  from send_accepted [OF this assms(3,4), of ?p]
  have "send ?locked ?p
          = (Inr (), ?locked\<lparr>ws := Some (sock\<lparr>outgoing := outgoing sock @ [?p]\<rparr>),
                             send_events := send_events ?locked @ [Sent ?p]\<rparr>)" .
  with assms(1) show ?thesis
    by (simp add: send_request_def Let_def)
qed

lemma send_request_written:
  assumes "is_connected s" and "ws s = Some sock" and "\<not> sock_closed sock" and "\<not> send_fails sock"
  shows "ws (snd (send_request lib s request_type request_data timeout t0 ticks))
           = Some (sock\<lparr>outgoing := outgoing sock
                     @ [request_payload request_type (uuid4 lib (uuid_calls s)) request_data]\<rparr>)
       \<and> uuid_calls (snd (send_request lib s request_type request_data timeout t0 ticks))
           = Suc (uuid_calls s)
       \<and> send_events (snd (send_request lib s request_type request_data timeout t0 ticks))
           = send_events s
             @ [SendLockAcquired,
                Sent (request_payload request_type (uuid4 lib (uuid_calls s)) request_data),
                SendLockReleased]"
proof -
  let ?p = "request_payload request_type (uuid4 lib (uuid_calls s)) request_data"
  let ?s1 = "s\<lparr>uuid_calls := Suc (uuid_calls s),
                ws := Some (sock\<lparr>outgoing := outgoing sock @ [?p]\<rparr>),
                send_events := send_events s @ [SendLockAcquired, Sent ?p, SendLockReleased]\<rparr>"
  obtain r s2 where w: "wait_for_response ?s1 (uuid4 lib (uuid_calls s)) timeout t0 ticks = (r, s2)"
    by (cases "wait_for_response ?s1 (uuid4 lib (uuid_calls s)) timeout t0 ticks")
  from wait_for_response_frame [OF w]
  have kept: "ws s2 = ws ?s1" "uuid_calls s2 = uuid_calls ?s1" "send_events s2 = send_events ?s1"
    by simp_all
  have "snd (send_request lib s request_type request_data timeout t0 ticks) = s2"
    using send_request_sent [OF assms, of lib request_type request_data timeout t0 ticks] w
    by (auto simp: request_error_def split: option.splits sum.splits)
  with kept show ?thesis by simp
qed

text \<open>When the socket refuses the write, the lock is given back all the same.\<close>

lemma send_request_refused:
  assumes "is_connected s" and "ws s = Some sock" and "sock_closed sock \<or> send_fails sock"
  shows "send_request lib s request_type request_data timeout t0 ticks
           = (Some (Inl (OBSConnectionError ''Failed to send message to OBS'')),
              s\<lparr>send_events := send_events s @ [SendLockAcquired, SendLockReleased],
                uuid_calls := Suc (uuid_calls s)\<rparr>)"
  using assms by (auto simp: send_request_def send_def sock_send_def Let_def)

text \<open>
  C4. Take a call of \<open>send_request\<close> on a connected manager whose write is accepted, and let
  the wait return a response with a \<open>requestStatus\<close> dictionary. If the status's \<open>result\<close> is
  false (or absent), the call raises \<open>OBSRequestError\<close>: the error carries the request type
  and the status dictionary as it arrived, its code is the status's \<open>code\<close>, and its message
  is the status's \<open>comment\<close> when that is not empty. If \<open>result\<close> is true, the call returns the
  response's \<open>responseData\<close> (the empty dictionary when the response has none).
\<close>

theorem send_request_status:
  assumes "is_connected s" and "ws s = Some sock" and "\<not> sock_closed sock" and "\<not> send_fails sock"
    and "wait_for_response
           (s\<lparr>uuid_calls := Suc (uuid_calls s),
              ws := Some (sock\<lparr>outgoing := outgoing sock
                    @ [request_payload request_type (uuid4 lib (uuid_calls s)) request_data]\<rparr>),
              send_events := send_events s
                    @ [SendLockAcquired,
                       Sent (request_payload request_type (uuid4 lib (uuid_calls s)) request_data),
                       SendLockReleased]\<rparr>)
           (uuid4 lib (uuid_calls s)) timeout t0 ticks = (Some (Inr (JObj response)), s')"
    and "map_of response ''requestStatus'' = Some (JObj status)"
  shows "(\<not> truthy (case map_of status ''result'' of Some v \<Rightarrow> v | None \<Rightarrow> JBool False) \<longrightarrow>
            (\<exists>code message.
               send_request lib s request_type request_data timeout t0 ticks
                 = (Some (Inl (OBSRequestError request_type (JObj status) code message)), s')
               \<and> code = (case map_of status ''code'' of Some v \<Rightarrow> v | None \<Rightarrow> JNull)
               \<and> (\<forall>comment. map_of status ''comment'' = Some comment \<and> truthy comment \<longrightarrow>
                      message = comment)))
       \<and> (truthy (case map_of status ''result'' of Some v \<Rightarrow> v | None \<Rightarrow> JBool False) \<longrightarrow>
            send_request lib s request_type request_data timeout t0 ticks
              = (Some (Inr (case map_of response ''responseData'' of Some v \<Rightarrow> v | None \<Rightarrow> JObj [])),
                 s'))"
  using send_request_sent [OF assms(1-4), of lib request_type request_data timeout t0 ticks]
    assms(5) assms(6)
  by (simp add: request_error_def py_or_def)

theorem send_request_status_examples:
  "send_request example_lib (example_manager []) ''GetVersion'' None (Some 5) 0
      [([], 1), ([(JStr ''r'', rejected_response)], 2)]
     = (Some (Inl (OBSRequestError ''GetVersion''
                     (JObj [(''result'', JBool False), (''code'', JInt 400),
                            (''comment'', JStr ''bad'')])
                     (JInt 400) (JStr ''bad''))),
        (example_manager [])
          \<lparr>ws := Some ((example_socket [])\<lparr>outgoing := [request_payload ''GetVersion'' ''r'' None]\<rparr>),
           notified := 1, waits := [4],
           send_events := [SendLockAcquired, Sent (request_payload ''GetVersion'' ''r'' None),
                           SendLockReleased],
           uuid_calls := 1\<rparr>)
   \<and> send_request example_lib (example_manager []) ''GetVersion'' None (Some 5) 0
      [([], 1), ([(JStr ''r'', example_response)], 2)]
     = (Some (Inr (JObj [(''obsVersion'', JStr ''30.0.0'')])),
        (example_manager [])
          \<lparr>ws := Some ((example_socket [])\<lparr>outgoing := [request_payload ''GetVersion'' ''r'' None]\<rparr>),
           notified := 1, waits := [4],
           send_events := [SendLockAcquired, Sent (request_payload ''GetVersion'' ''r'' None),
                           SendLockReleased],
           uuid_calls := 1\<rparr>)"
proof -
  let ?p = "request_payload ''GetVersion'' (uuid4 example_lib (uuid_calls (example_manager []))) None"
  let ?s1 = "(example_manager [])
          \<lparr>uuid_calls := Suc (uuid_calls (example_manager [])),
           ws := Some ((example_socket [])\<lparr>outgoing := outgoing (example_socket []) @ [?p]\<rparr>),
           send_events := send_events (example_manager [])
                            @ [SendLockAcquired, Sent ?p, SendLockReleased]\<rparr>"
  let ?s2 = "(example_manager [])
          \<lparr>ws := Some ((example_socket [])\<lparr>outgoing := [request_payload ''GetVersion'' ''r'' None]\<rparr>),
           notified := 1, waits := [4],
           send_events := [SendLockAcquired, Sent (request_payload ''GetVersion'' ''r'' None),
                           SendLockReleased],
           uuid_calls := 1\<rparr>"
  have rid: "uuid4 example_lib (uuid_calls (example_manager [])) = ''r''"
    by (simp add: example_lib_def example_manager_def init_def)
  have conn: "is_connected (example_manager [])"
    by (simp add: is_connected_def example_manager_def)
  have sock: "ws (example_manager []) = Some (example_socket [])"
    by (simp add: example_manager_def)
  have ok: "\<not> sock_closed (example_socket [])" "\<not> send_fails (example_socket [])"
    by (simp_all add: example_socket_def)
  have w1: "wait_for_response ?s1 (uuid4 example_lib (uuid_calls (example_manager [])))
              (Some 5) 0 [([], 1), ([(JStr ''r'', rejected_response)], 2)]
              = (Some (Inr (JObj [(''requestId'', JStr ''r''),
                   (''requestStatus'',
                      JObj [(''result'', JBool False), (''code'', JInt 400),
                            (''comment'', JStr ''bad'')])])), ?s2)"
    unfolding rid
    by (simp add: wait_for_response_def timeout_or_def put_response_def Let_def
          rejected_response_def example_manager_def example_socket_def init_def)
  have w2: "wait_for_response ?s1 (uuid4 example_lib (uuid_calls (example_manager [])))
              (Some 5) 0 [([], 1), ([(JStr ''r'', example_response)], 2)]
              = (Some (Inr (JObj [(''requestId'', JStr ''r''),
                   (''requestStatus'', JObj [(''result'', JBool True), (''code'', JInt 100)]),
                   (''responseData'', JObj [(''obsVersion'', JStr ''30.0.0'')])])), ?s2)"
    unfolding rid
    by (simp add: wait_for_response_def timeout_or_def put_response_def Let_def
          example_response_def example_manager_def example_socket_def init_def)
  from send_request_status [OF conn sock ok w1, of "[(''result'', JBool False), (''code'', JInt 400),
                            (''comment'', JStr ''bad'')]"]
    send_request_status [OF conn sock ok w2, of "[(''result'', JBool True), (''code'', JInt 100)]"]
  show ?thesis by simp
qed

text \<open>
  C5. A call of \<open>send_request\<close> on a manager that is not connected and identified raises
  \<open>OBSNotConnectedError\<close> and leaves the manager, its socket included, as it was: nothing is
  written, no id is drawn and the lock is not touched. On a connected manager whose socket
  accepts the write, the call draws one new value from \<open>uuid.uuid4()\<close> as the correlation
  id, and writes exactly one frame: the envelope with opcode 6 whose \<open>d\<close> holds the request
  type, that id and the request data, the empty dictionary standing for absent data. The
  write is the only thing that happens between acquiring the send lock and releasing it.
  The id is fresh: as \<open>uuid4\<close> does not repeat a value, it differs from every id drawn
  before, and the next call draws another one.
\<close>

theorem send_request_gate:
  "(\<not> is_connected s \<longrightarrow>
      send_request lib s request_type request_data timeout t0 ticks
        = (Some (Inl (OBSNotConnectedError ''OBS WebSocket is not connected'')), s))
   \<and> (is_connected s \<and> ws s = Some sock \<and> \<not> sock_closed sock \<and> \<not> send_fails sock \<longrightarrow>
      ws (snd (send_request lib s request_type request_data timeout t0 ticks))
        = Some (sock\<lparr>outgoing := outgoing sock
                  @ [JObj [(''op'', JInt 6),
                           (''d'', JObj [(''requestType'', JStr request_type),
                                        (''requestId'', JStr (uuid4 lib (uuid_calls s))),
                                        (''requestData'',
                                         JObj (case request_data of None \<Rightarrow> [] | Some kvs \<Rightarrow> kvs))])]]\<rparr>)
      \<and> send_events (snd (send_request lib s request_type request_data timeout t0 ticks))
        = send_events s
          @ [SendLockAcquired,
             Sent (JObj [(''op'', JInt 6),
                         (''d'', JObj [(''requestType'', JStr request_type),
                                      (''requestId'', JStr (uuid4 lib (uuid_calls s))),
                                      (''requestData'',
                                       JObj (case request_data of None \<Rightarrow> [] | Some kvs \<Rightarrow> kvs))])]),
             SendLockReleased]
      \<and> uuid_calls (snd (send_request lib s request_type request_data timeout t0 ticks))
        = Suc (uuid_calls s))
   \<and> (inj (uuid4 lib) \<longrightarrow>
        (\<forall>n < uuid_calls s. uuid4 lib n \<noteq> uuid4 lib (uuid_calls s))
        \<and> uuid4 lib (Suc (uuid_calls s)) \<noteq> uuid4 lib (uuid_calls s))"
proof -
  have payload: "request_payload request_type (uuid4 lib (uuid_calls s)) request_data
      = JObj [(''op'', JInt 6),
              (''d'', JObj [(''requestType'', JStr request_type),
                           (''requestId'', JStr (uuid4 lib (uuid_calls s))),
                           (''requestData'',
                            JObj (case request_data of None \<Rightarrow> [] | Some kvs \<Rightarrow> kvs))])]"
    by (cases request_data) (auto simp: request_payload_def py_or_def)
  have gate: "send_request lib s request_type request_data timeout t0 ticks
        = (Some (Inl (OBSNotConnectedError ''OBS WebSocket is not connected'')), s)"
    if "\<not> is_connected s"
    using that by (simp add: send_request_def)
  have fresh: "(\<forall>n < uuid_calls s. uuid4 lib n \<noteq> uuid4 lib (uuid_calls s))
        \<and> uuid4 lib (Suc (uuid_calls s)) \<noteq> uuid4 lib (uuid_calls s)"
    if "inj (uuid4 lib)"
    using that by (auto dest: injD)
  from gate fresh
    send_request_written [of s sock lib request_type request_data timeout t0 ticks]
  show ?thesis
    unfolding payload by blast
qed

theorem send_request_gate_examples:
  "send_request example_lib (init None) ''GetVersion'' None None 0 []
     = (Some (Inl (OBSNotConnectedError ''OBS WebSocket is not connected'')), init None)
   \<and> ws (snd (send_request example_lib (example_manager []) ''GetVersion'' None None 0 []))
     = Some ((example_socket [])
               \<lparr>outgoing := [JObj [(''op'', JInt 6),
                                   (''d'', JObj [(''requestType'', JStr ''GetVersion''),
                                                (''requestId'', JStr ''r''),
                                                (''requestData'', JObj [])])]]\<rparr>)
   \<and> send_events (snd (send_request example_lib (example_manager []) ''GetVersion'' None None 0 []))
     = [SendLockAcquired,
        Sent (JObj [(''op'', JInt 6),
                    (''d'', JObj [(''requestType'', JStr ''GetVersion''),
                                 (''requestId'', JStr ''r''),
                                 (''requestData'', JObj [])])]),
        SendLockReleased]
   \<and> uuid_calls (snd (send_request example_lib (example_manager []) ''GetVersion'' None None 0 []))
     = 1
   \<and> uuid4 example_lib 1 \<noteq> uuid4 example_lib 0"
proof -
  have never_repeats: "inj (uuid4 example_lib)"
    by (auto simp: example_lib_def inj_on_def dest: arg_cong [where f = length])
  have calls: "uuid_calls (example_manager []) = 0" "uuid4 example_lib 0 = ''r''"
    by (simp_all add: example_manager_def init_def example_lib_def)
  from send_request_gate [where s = "init None" and lib = example_lib
         and request_type = "''GetVersion''" and request_data = None and timeout = None
         and ?t0.0 = 0 and ticks = "[]"]
  have first: "send_request example_lib (init None) ''GetVersion'' None None 0 []
     = (Some (Inl (OBSNotConnectedError ''OBS WebSocket is not connected'')), init None)"
    by (simp add: is_connected_def init_def)
  from send_request_gate [where s = "example_manager []" and sock = "example_socket []"
         and lib = example_lib and request_type = "''GetVersion''" and request_data = None
         and timeout = None and ?t0.0 = 0 and ticks = "[]"] never_repeats calls
  have rest: "ws (snd (send_request example_lib (example_manager []) ''GetVersion'' None None 0 []))
     = Some ((example_socket [])
               \<lparr>outgoing := [JObj [(''op'', JInt 6),
                                   (''d'', JObj [(''requestType'', JStr ''GetVersion''),
                                                (''requestId'', JStr ''r''),
                                                (''requestData'', JObj [])])]]\<rparr>)"
    "send_events (snd (send_request example_lib (example_manager []) ''GetVersion'' None None 0 []))
     = [SendLockAcquired,
        Sent (JObj [(''op'', JInt 6),
                    (''d'', JObj [(''requestType'', JStr ''GetVersion''),
                                 (''requestId'', JStr ''r''),
                                 (''requestData'', JObj [])])]),
        SendLockReleased]"
    "uuid_calls (snd (send_request example_lib (example_manager []) ''GetVersion'' None None 0 []))
     = 1"
    "uuid4 example_lib 1 \<noteq> uuid4 example_lib 0"
    by (simp_all add: is_connected_def init_def example_manager_def example_socket_def)
  from first rest show ?thesis by blast
qed

text \<open>
  Two calls in a row, each answered at its first wake: the frames on the socket carry the
  ids \<open>r\<close> and \<open>rr\<close>, and each write has the lock around it.
\<close>

lemma send_request_twice:
  "(case send_request example_lib (example_manager []) ''GetVersion'' None None 0
           [([(JStr ''r'', example_response)], 1)] of
      (r1, s1) \<Rightarrow>
        (case send_request example_lib s1 ''GetStats'' None None 2
                [([(JStr ''rr'', example_response)], 3)] of
           (r2, s2) \<Rightarrow> (r1, r2, map_option outgoing (ws s2), send_events s2)))
   = (Some (Inr (JObj [(''obsVersion'', JStr ''30.0.0'')])),
      Some (Inr (JObj [(''obsVersion'', JStr ''30.0.0'')])),
      Some [request_payload ''GetVersion'' ''r'' None, request_payload ''GetStats'' ''rr'' None],
      [SendLockAcquired, Sent (request_payload ''GetVersion'' ''r'' None), SendLockReleased,
       SendLockAcquired, Sent (request_payload ''GetStats'' ''rr'' None), SendLockReleased])"
  by (simp add: send_request_def is_connected_def example_manager_def example_socket_def
        example_lib_def init_def default_config_def send_def sock_send_def Let_def
        wait_for_response_def timeout_or_def put_response_def example_response_def)

subsection \<open>Configuration updates\<close>

text \<open>
  C6. When the values passed to \<open>update_config\<close> give a configuration equal to the current
  one, the call returns the current configuration and the manager is as it was: the stored
  configuration, the socket and the connection state are unchanged, nothing is logged, and
  neither \<open>disconnect\<close> nor \<open>connect\<close> runs.
\<close>

theorem update_config_unchanged:
  assumes "replace (config s) kwargs = config s"
  shows "update_config lib s kwargs = (config s, s)"
  using assms by (simp add: update_config_def)

theorem update_config_unchanged_example:
  "update_config example_lib (example_manager [])
     \<lparr>new_host = Some ''127.0.0.1'', new_port = Some 4455, new_password = Some '''',
      new_use_ssl = Some False, new_request_timeout = Some 5, new_event_subscriptions = None\<rparr>
   = (default_config, example_manager [])"
  using update_config_unchanged
    [of "example_manager []"
        "\<lparr>new_host = Some ''127.0.0.1'', new_port = Some 4455, new_password = Some '''',
          new_use_ssl = Some False, new_request_timeout = Some 5,
          new_event_subscriptions = None\<rparr>"
        example_lib]
  by (simp add: replace_def example_manager_def init_def default_config_def)

text \<open>
  By contrast, a new host on a connected manager closes the connection and dials again;
  here the dial fails, which is logged, and the manager ends disconnected.
\<close>

lemma update_config_reconnects:
  "update_config example_lib (example_manager [])
     \<lparr>new_host = Some ''obs.local'', new_port = None, new_password = None,
      new_use_ssl = None, new_request_timeout = None, new_event_subscriptions = None\<rparr>
   = (default_config\<lparr>host := ''obs.local''\<rparr>,
      (init (Some (default_config\<lparr>host := ''obs.local''\<rparr>)))
        \<lparr>logged := [(Info, ''Reconnecting to OBS WebSocket after configuration change''),
                    (Debug, ''Connecting to OBS WebSocket''),
                    (Error, ''Failed to reconnect to OBS'')]\<rparr>)"
  by (simp add: update_config_def replace_def example_manager_def init_def default_config_def
        is_connected_def logger_def disconnect_def stop_receiver_def safe_close_def
        connect_def do_connect_def example_lib_def timeout_or_def Let_def)

subsection \<open>The broadcaster\<close>

lemma send_request_not_connected:
  "\<not> is_connected s \<Longrightarrow>
   send_request lib s request_type request_data timeout t0 ticks
     = (Some (Inl (OBSNotConnectedError ''OBS WebSocket is not connected'')), s)"
  by (simp add: send_request_def)

lemma is_connected_logger [simp]: "is_connected (logger lvl msg s) = is_connected s"
  by (simp add: is_connected_def logger_def)

text \<open>
  C7. \<open>safe_broadcast\<close> returns \<open>True\<close> when \<open>broadcast\<close> returns, and \<open>False\<close>, after logging
  an error, when \<open>broadcast\<close> raises an error of one of three kinds: not connected, request
  failed, response timeout. It returns \<open>False\<close> in no other case, and every other error
  leaves \<open>safe_broadcast\<close> as \<open>broadcast\<close> raised it. An empty action raises \<open>ValueError\<close>
  through \<open>safe_broadcast\<close>; a non-empty action on a manager that is not connected gives
  \<open>False\<close> and no exception.
\<close>

theorem safe_broadcast_outcomes:
  "(is_expected_error exc \<longleftrightarrow>
      (\<exists>m. exc = OBSNotConnectedError m) \<or> (\<exists>t st c m. exc = OBSRequestError t st c m)
      \<or> (\<exists>m. exc = OBSResponseTimeoutError m))
   \<and> (broadcast lib b action payload timeout t0 ticks = (Some (Inr response), b') \<longrightarrow>
        safe_broadcast lib b action payload timeout t0 ticks = (Some (Inr True), b'))
   \<and> (broadcast lib b action payload timeout t0 ticks = (Some (Inl exc), b')
        \<and> is_expected_error exc \<longrightarrow>
        safe_broadcast lib b action payload timeout t0 ticks
          = (Some (Inr False),
             b'\<lparr>connection := logger Error ''Failed to broadcast Twitchat event'' (connection b')\<rparr>))
   \<and> (broadcast lib b action payload timeout t0 ticks = (Some (Inl exc), b')
        \<and> \<not> is_expected_error exc \<longrightarrow>
        safe_broadcast lib b action payload timeout t0 ticks = (Some (Inl exc), b'))
   \<and> (fst (safe_broadcast lib b action payload timeout t0 ticks) = Some (Inr False) \<longrightarrow>
        (\<exists>e. fst (broadcast lib b action payload timeout t0 ticks) = Some (Inl e)
             \<and> is_expected_error e))
   \<and> (action = [] \<longrightarrow>
        safe_broadcast lib b action payload timeout t0 ticks
          = (Some (Inl (ValueError ''Action identifier must be provided'')), b))
   \<and> (action \<noteq> [] \<and> \<not> is_connected (connection b) \<longrightarrow>
        fst (safe_broadcast lib b action payload timeout t0 ticks) = Some (Inr False))"
proof -
  have kinds: "is_expected_error exc \<longleftrightarrow>
      (\<exists>m. exc = OBSNotConnectedError m) \<or> (\<exists>t st c m. exc = OBSRequestError t st c m)
      \<or> (\<exists>m. exc = OBSResponseTimeoutError m)"
    by (cases exc) simp_all
  have only: "fst (safe_broadcast lib b action payload timeout t0 ticks) = Some (Inr False) \<longrightarrow>
        (\<exists>e. fst (broadcast lib b action payload timeout t0 ticks) = Some (Inl e)
             \<and> is_expected_error e)"
    by (auto simp: safe_broadcast_def split: prod.splits option.splits sum.splits if_splits)
  have empty: "action = [] \<longrightarrow>
        safe_broadcast lib b action payload timeout t0 ticks
          = (Some (Inl (ValueError ''Action identifier must be provided'')), b)"
    by (simp add: safe_broadcast_def broadcast_def)
  have offline: "action \<noteq> [] \<and> \<not> is_connected (connection b) \<longrightarrow>
        fst (safe_broadcast lib b action payload timeout t0 ticks) = Some (Inr False)"
    by (simp add: safe_broadcast_def broadcast_def Let_def send_request_not_connected)
  show ?thesis
    using kinds only empty offline by (simp add: safe_broadcast_def)
qed

theorem safe_broadcast_examples:
  "safe_broadcast example_lib (example_broadcaster (init None)) ''GREET_FEED_READ_ALL'' None None 0 []
     = (Some (Inr False),
        example_broadcaster
          ((init None)\<lparr>logged := [(Debug, ''Broadcasting Twitchat event''),
                                  (Error, ''Failed to broadcast Twitchat event'')]\<rparr>))
   \<and> safe_broadcast example_lib (example_broadcaster (init None)) '''' None None 0 []
     = (Some (Inl (ValueError ''Action identifier must be provided'')),
        example_broadcaster (init None))
   \<and> fst (safe_broadcast example_lib (example_broadcaster (example_manager []))
            ''GREET_FEED_READ_ALL'' None None 0 [([(JStr ''r'', example_response)], 1)])
     = Some (Inr True)
   \<and> fst (safe_broadcast example_lib
            (example_broadcaster
               ((example_manager [])\<lparr>ws := Some ((example_socket [])\<lparr>send_fails := True\<rparr>)\<rparr>))
            ''GREET_FEED_READ_ALL'' None None 0 [])
     = Some (Inl (OBSConnectionError ''Failed to send message to OBS''))"
proof -
  let ?b0 = "example_broadcaster (init None)"
  let ?b1 = "example_broadcaster (example_manager [])"
  let ?b2 = "example_broadcaster
               ((example_manager [])\<lparr>ws := Some ((example_socket [])\<lparr>send_fails := True\<rparr>)\<rparr>)"
  let ?a = "''GREET_FEED_READ_ALL''"
  have run0: "broadcast example_lib ?b0 ?a None None 0 []
                = (Some (Inl (OBSNotConnectedError ''OBS WebSocket is not connected'')),
                   example_broadcaster ((init None)\<lparr>logged := [(Debug, ''Broadcasting Twitchat event'')]\<rparr>))"
    by (simp add: broadcast_def send_request_def is_connected_def example_broadcaster_def
          init_def logger_def Let_def)
  have run1: "fst (broadcast example_lib ?b1 ?a None None 0 [([(JStr ''r'', example_response)], 1)])
                = Some (Inr (JObj [(''obsVersion'', JStr ''30.0.0'')]))"
    by (simp add: broadcast_def send_request_def is_connected_def example_broadcaster_def
          example_manager_def example_socket_def example_lib_def init_def logger_def Let_def
          send_def sock_send_def wait_for_response_def timeout_or_def default_config_def
          put_response_def example_response_def split: prod.splits)
  have run2: "fst (broadcast example_lib ?b2 ?a None None 0 [])
                = Some (Inl (OBSConnectionError ''Failed to send message to OBS''))"
    by (simp add: broadcast_def send_request_def is_connected_def example_broadcaster_def
          example_manager_def example_socket_def init_def logger_def Let_def send_def
          sock_send_def split: prod.splits)
  obtain b1' where b1': "broadcast example_lib ?b1 ?a None None 0 [([(JStr ''r'', example_response)], 1)]
                = (Some (Inr (JObj [(''obsVersion'', JStr ''30.0.0'')])), b1')"
    using run1 by (cases "broadcast example_lib ?b1 ?a None None 0 [([(JStr ''r'', example_response)], 1)]") simp
  obtain b2' where b2': "broadcast example_lib ?b2 ?a None None 0 []
                = (Some (Inl (OBSConnectionError ''Failed to send message to OBS'')), b2')"
    using run2 by (cases "broadcast example_lib ?b2 ?a None None 0 []") simp
  from safe_broadcast_outcomes
         [where lib = example_lib and b = ?b0 and action = ?a and payload = None and timeout = None
            and ?t0.0 = 0 and ticks = "[]"
            and exc = "OBSNotConnectedError ''OBS WebSocket is not connected''"
            and b' = "example_broadcaster
                        ((init None)\<lparr>logged := [(Debug, ''Broadcasting Twitchat event'')]\<rparr>)"]
       run0
  have first: "safe_broadcast example_lib ?b0 ?a None None 0 []
     = (Some (Inr False),
        example_broadcaster
          ((init None)\<lparr>logged := [(Debug, ''Broadcasting Twitchat event''),
                                  (Error, ''Failed to broadcast Twitchat event'')]\<rparr>))"
    by (simp add: example_broadcaster_def logger_def)
  from safe_broadcast_outcomes
         [where lib = example_lib and b = ?b0 and action = "''''" and payload = None
            and timeout = None and ?t0.0 = 0 and ticks = "[]"]
  have second: "safe_broadcast example_lib ?b0 '''' None None 0 []
     = (Some (Inl (ValueError ''Action identifier must be provided'')), ?b0)"
    by simp
  from safe_broadcast_outcomes
         [where lib = example_lib and b = ?b1 and action = ?a and payload = None and timeout = None
            and ?t0.0 = 0
            and ticks = "[([(JStr ''r'', example_response)], 1)]"
            and response = "JObj [(''obsVersion'', JStr ''30.0.0'')]" and b' = b1'] b1'
  have third: "fst (safe_broadcast example_lib ?b1 ?a None None 0 [([(JStr ''r'', example_response)], 1)])
     = Some (Inr True)"
    by simp
  from safe_broadcast_outcomes
         [where lib = example_lib and b = ?b2 and action = ?a and payload = None and timeout = None
            and ?t0.0 = 0 and ticks = "[]"
            and exc = "OBSConnectionError ''Failed to send message to OBS''" and b' = b2'] b2'
  have fourth: "fst (safe_broadcast example_lib ?b2 ?a None None 0 [])
     = Some (Inl (OBSConnectionError ''Failed to send message to OBS''))"
    by simp
  from first second third fourth show ?thesis by blast
qed


subsection \<open>The event type\<close>

lemma dropWhile_keeps: "x \<in> set xs \<Longrightarrow> \<not> P x \<Longrightarrow> x \<in> set (dropWhile P xs)"
  by (induction xs) auto

lemma colon_in_strip: "CHR '':'' \<in> set (strip action) \<longleftrightarrow> CHR '':'' \<in> set action"
proof
  assume "CHR '':'' \<in> set (strip action)"
  then have "CHR '':'' \<in> set (dropWhile is_space (rev (dropWhile is_space action)))"
    by (simp add: strip_def)
  then have "CHR '':'' \<in> set (rev (dropWhile is_space action))"
    by (rule set_dropWhileD)
  then show "CHR '':'' \<in> set action"
    using set_dropWhileD [of "CHR '':''" is_space action] by simp
next
  have colon: "\<not> is_space CHR '':''"
    by (simp add: is_space_def)
  assume "CHR '':'' \<in> set action"
  then have "CHR '':'' \<in> set (rev (dropWhile is_space action))"
    using colon by (simp add: dropWhile_keeps)
  then have "CHR '':'' \<in> set (dropWhile is_space (rev (dropWhile is_space action)))"
    using colon by (rule dropWhile_keeps)
  then show "CHR '':'' \<in> set (strip action)"
    by (simp add: strip_def)
qed

lemma strip_trimmed:
  assumes "action \<noteq> []" and "\<not> is_space (hd action)" and "\<not> is_space (last action)"
  shows "strip action = action"
proof -
  from assms(1,2) have front: "dropWhile is_space action = action"
    by (cases action) simp_all
  from assms(1,3) have "dropWhile is_space (rev action) = rev action"
    by (cases "rev action") (simp_all add: last_rev [symmetric] del: last_rev)
  with front show ?thesis by (simp add: strip_def)
qed

text \<open>
  C9, as the claim states it, fails: \<open>_format_event_type\<close> strips the action before anything
  else. An action with the separator and a leading space does not come back unchanged, and
  an action without the separator and with a trailing space is not appended as it is.
\<close>

theorem format_event_type_strips_action:
  "CHR '':'' \<in> set '' chat:ping''
   \<and> format_event_type (example_broadcaster (init None)) '' chat:ping'' \<noteq> '' chat:ping''
   \<and> CHR '':'' \<notin> set ''ping ''
   \<and> format_event_type (example_broadcaster (init None)) ''ping ''
       \<noteq> namespace (example_broadcaster (init None)) @ '':'' @ ''ping ''"
  by (simp add: format_event_type_def strip_def is_space_def example_broadcaster_def)

text \<open>
  C9, amended. \<open>broadcast\<close> builds the event type from the action with leading and trailing
  whitespace stripped: if the action contains the separator \<open>:\<close>, the event type is the
  stripped action; otherwise it is the namespace, \<open>:\<close> and the stripped action. An action
  that neither starts nor ends with whitespace is its own stripped form. For a non-empty
  action on a connected manager whose socket accepts the write, the frame written is the
  \<open>BroadcastCustomEvent\<close> request whose data holds this event type as \<open>eventType\<close> and the
  payload, or the empty dictionary, as \<open>eventData\<close>.
\<close>

theorem broadcast_event_type:
  "format_event_type b action
     = (if CHR '':'' \<in> set action then strip action else namespace b @ '':'' @ strip action)
   \<and> (action \<noteq> [] \<and> \<not> is_space (hd action) \<and> \<not> is_space (last action) \<longrightarrow>
        strip action = action)
   \<and> (action \<noteq> [] \<and> is_connected (connection b) \<and> ws (connection b) = Some sock
        \<and> \<not> sock_closed sock \<and> \<not> send_fails sock \<longrightarrow>
        ws (connection (snd (broadcast lib b action payload timeout t0 ticks)))
          = Some (sock\<lparr>outgoing := outgoing sock
                    @ [JObj [(''op'', JInt 6),
                             (''d'', JObj [(''requestType'', JStr ''BroadcastCustomEvent''),
                                          (''requestId'', JStr (uuid4 lib (uuid_calls (connection b)))),
                                          (''requestData'',
                                           JObj [(''eventType'', JStr (format_event_type b action)),
                                                 (''eventData'',
                                                  JObj (case payload of None \<Rightarrow> []
                                                        | Some kvs \<Rightarrow> kvs))])])]]\<rparr>))"
proof -
  have fmt: "format_event_type b action
     = (if CHR '':'' \<in> set action then strip action else namespace b @ '':'' @ strip action)"
    by (simp add: format_event_type_def Let_def colon_in_strip)
  have trimmed: "action \<noteq> [] \<and> \<not> is_space (hd action) \<and> \<not> is_space (last action) \<longrightarrow>
        strip action = action"
    by (simp add: strip_trimmed)
  have data: "(case payload of None \<Rightarrow> JObj [] | Some kvs \<Rightarrow> py_or (JObj kvs) (JObj []))
                = JObj (case payload of None \<Rightarrow> [] | Some kvs \<Rightarrow> kvs)"
    by (cases payload) (auto simp: py_or_def)
  have written: "ws (connection (snd (broadcast lib b action payload timeout t0 ticks)))
          = Some (sock\<lparr>outgoing := outgoing sock
                    @ [JObj [(''op'', JInt 6),
                             (''d'', JObj [(''requestType'', JStr ''BroadcastCustomEvent''),
                                          (''requestId'', JStr (uuid4 lib (uuid_calls (connection b)))),
                                          (''requestData'',
                                           JObj [(''eventType'', JStr (format_event_type b action)),
                                                 (''eventData'',
                                                  JObj (case payload of None \<Rightarrow> []
                                                        | Some kvs \<Rightarrow> kvs))])])]]\<rparr>)"
    if "action \<noteq> []" and "is_connected (connection b)" and "ws (connection b) = Some sock"
      and "\<not> sock_closed sock" and "\<not> send_fails sock"
  proof -
    let ?c = "logger Debug ''Broadcasting Twitchat event'' (connection b)"
    let ?rd = "Some [(''eventType'', JStr (format_event_type b action)),
                     (''eventData'', JObj (case payload of None \<Rightarrow> [] | Some kvs \<Rightarrow> kvs))]"
    have c: "is_connected ?c" "ws ?c = Some sock" "uuid_calls ?c = uuid_calls (connection b)"
      using that(2,3) by (simp_all add: logger_def is_connected_def)
    from send_request_written [OF c(1,2) that(4,5), of lib "''BroadcastCustomEvent''" ?rd timeout t0 ticks]
      c(3)
    show ?thesis
      using that(1)
      by (auto simp: broadcast_def Let_def data request_payload_def py_or_def split: prod.splits)
  qed
  from fmt trimmed written show ?thesis by blast
qed

theorem broadcast_event_type_examples:
  "format_event_type (example_broadcaster (init None)) '' chat:ping'' = ''chat:ping''
   \<and> format_event_type (example_broadcaster (init None)) ''GREET_FEED_READ_ALL''
       = ''twitchat:GREET_FEED_READ_ALL''
   \<and> strip ''GREET_FEED_READ_ALL'' = ''GREET_FEED_READ_ALL''
   \<and> ws (connection (snd (broadcast example_lib (example_broadcaster (example_manager []))
                             ''GREET_FEED_READ_ALL'' None None 0 [])))
       = Some ((example_socket [])
                 \<lparr>outgoing :=
                    [JObj [(''op'', JInt 6),
                           (''d'', JObj [(''requestType'', JStr ''BroadcastCustomEvent''),
                                        (''requestId'', JStr ''r''),
                                        (''requestData'',
                                         JObj [(''eventType'', JStr ''twitchat:GREET_FEED_READ_ALL''),
                                               (''eventData'', JObj [])])])]]\<rparr>)"
proof -
  have s: "strip '' chat:ping'' = ''chat:ping''"
    by (simp add: strip_def is_space_def)
  have t: "\<not> is_space (hd ''GREET_FEED_READ_ALL'')" "\<not> is_space (last ''GREET_FEED_READ_ALL'')"
    by (simp_all add: is_space_def)
  from broadcast_event_type [where b = "example_broadcaster (init None)" and action = "'' chat:ping''"] s
  have first: "format_event_type (example_broadcaster (init None)) '' chat:ping'' = ''chat:ping''"
    by simp
  from broadcast_event_type
         [where b = "example_broadcaster (init None)" and action = "''GREET_FEED_READ_ALL''"] t
  have second: "format_event_type (example_broadcaster (init None)) ''GREET_FEED_READ_ALL''
       = ''twitchat:GREET_FEED_READ_ALL''"
    and third: "strip ''GREET_FEED_READ_ALL'' = ''GREET_FEED_READ_ALL''"
    by (simp_all add: example_broadcaster_def)
  from broadcast_event_type
         [where b = "example_broadcaster (example_manager [])" and action = "''GREET_FEED_READ_ALL''"
            and sock = "example_socket []" and payload = None and timeout = None
            and lib = example_lib and ?t0.0 = 0 and ticks = "[]"] t
  have fourth: "ws (connection (snd (broadcast example_lib (example_broadcaster (example_manager []))
                             ''GREET_FEED_READ_ALL'' None None 0 [])))
       = Some ((example_socket [])
                 \<lparr>outgoing :=
                    [JObj [(''op'', JInt 6),
                           (''d'', JObj [(''requestType'', JStr ''BroadcastCustomEvent''),
                                        (''requestId'', JStr ''r''),
                                        (''requestData'',
                                         JObj [(''eventType'', JStr ''twitchat:GREET_FEED_READ_ALL''),
                                               (''eventData'', JObj [])])])]]\<rparr>)"
    by (simp add: example_broadcaster_def example_manager_def example_socket_def
          example_lib_def is_connected_def init_def)
  from first second third fourth show ?thesis by blast
qed


subsection \<open>The handshake\<close>

lemma recv_frame:
  assumes "ws s = Some sock" and "\<not> sock_closed sock" and "incoming sock = Frame message # rest"
    and "json_loads lib message = Some v"
  shows "recv lib s timeout = (Inr v, s\<lparr>ws := Some (sock\<lparr>incoming := rest\<rparr>)\<rparr>)"
  using assms by (simp add: recv_def sock_recv_def Let_def)

lemma sock_recv_keeps:
  "sock_recv sock = (ev, sock') \<Longrightarrow>
   outgoing sock' = outgoing sock \<and> send_fails sock' = send_fails sock
   \<and> sock_closed sock' = sock_closed sock"
  by (auto simp: sock_recv_def split: if_splits list.splits)

lemma recv_keeps:
  assumes "recv lib s timeout = (r, s')" and "ws s = Some sock"
  shows "\<exists>sock'. ws s' = Some sock' \<and> outgoing sock' = outgoing sock"
proof -
  obtain ev sock1 where got: "sock_recv (sock\<lparr>sock_timeout := Some timeout\<rparr>) = (ev, sock1)"
    by (cases "sock_recv (sock\<lparr>sock_timeout := Some timeout\<rparr>)")
  from sock_recv_keeps [OF got] have out: "outgoing sock1 = outgoing sock" by simp
  from assms got have "ws s' = Some (sock1\<lparr>sock_timeout := sock_timeout sock\<rparr>)"
    by (auto simp: recv_def Let_def split: recv_event.splits option.splits)
  with out show ?thesis by simp
qed

text \<open>Once the write is accepted, the Identify payload is the one frame the handshake sends.\<close>

lemma complete_handshake_written:
  assumes "ws s = Some sock" and "\<not> sock_closed sock" and "\<not> send_fails sock"
  shows "\<exists>sock'. ws (snd (complete_handshake lib s timeout p)) = Some sock'
                 \<and> outgoing sock' = outgoing sock @ [p]"
proof -
  let ?s1 = "s\<lparr>ws := Some (sock\<lparr>outgoing := outgoing sock @ [p]\<rparr>),
                send_events := send_events s @ [Sent p]\<rparr>"
  have sent: "send s p = (Inr (), ?s1)"
    using assms by (rule send_accepted)
  obtain r s2 where got: "recv lib ?s1 timeout = (r, s2)"
    by (cases "recv lib ?s1 timeout")
  from recv_keeps [OF got, of "sock\<lparr>outgoing := outgoing sock @ [p]\<rparr>"]
  obtain sock2 where s2: "ws s2 = Some sock2" "outgoing sock2 = outgoing sock @ [p]"
    by auto
  show ?thesis
    using sent got s2
    by (auto simp: complete_handshake_def Let_def logger_def split: sum.splits)
qed

text \<open>
  C8. Let the first frame of the handshake be a Hello: an object with opcode 0 whose \<open>d\<close> is
  an object with a usable \<open>rpcVersion\<close>. If its \<open>authentication\<close> field is present and not
  empty while the configured password is empty, \<open>_perform_handshake\<close> raises
  \<open>OBSAuthenticationError\<close> and has written nothing: the manager differs from the one before
  only by the consumed frame and the recorded version. If the field is absent (or empty)
  and the socket accepts the write, the one frame written is the Identify envelope whose
  \<open>d\<close> holds \<open>rpcVersion\<close> and \<open>eventSubscriptions\<close> and no \<open>authentication\<close> key.
\<close>

theorem perform_handshake_authentication:
  assumes "ws s = Some sock" and "\<not> sock_closed sock" and "incoming sock = Frame message # rest"
    and "json_loads lib message = Some (JObj hello)"
    and "dict_get (JObj hello) ''op'' JNull = Inr op" and "py_eq_int op 0"
    and "dict_get (JObj hello) ''d'' (JObj []) = Inr (JObj hello_data)"
    and "py_int lib (case map_of hello_data ''rpcVersion'' of Some x \<Rightarrow> x | None \<Rightarrow> JInt 1) = Inr v"
    and "dict_get (JObj hello_data) ''authentication'' JNull = Inr auth"
  shows "(truthy auth \<and> password (config s) = [] \<longrightarrow>
            perform_handshake lib s timeout
              = (Inl (OBSAuthenticationError
                        ''OBS WebSocket requires a password but none was provided''),
                 s\<lparr>ws := Some (sock\<lparr>incoming := rest\<rparr>), rpc_version := v\<rparr>))
       \<and> (\<not> truthy auth \<and> \<not> send_fails sock \<longrightarrow>
            (\<exists>sock'. ws (snd (perform_handshake lib s timeout)) = Some sock'
                \<and> outgoing sock'
                    = outgoing sock
                      @ [JObj [(''op'', JInt 1),
                               (''d'', JObj [(''rpcVersion'', JInt v),
                                            (''eventSubscriptions'',
                                             JInt (event_subscriptions (config s)))])]]
                \<and> map_of [(''rpcVersion'', JInt v),
                           (''eventSubscriptions'', JInt (event_subscriptions (config s)))]
                     ''authentication'' = None))"
proof -
  let ?s1 = "s\<lparr>ws := Some (sock\<lparr>incoming := rest\<rparr>)\<rparr>"
  let ?s2 = "?s1\<lparr>rpc_version := v\<rparr>"
  let ?identify = "JObj [(''op'', JInt 1),
                         (''d'', JObj [(''rpcVersion'', JInt v),
                                      (''eventSubscriptions'',
                                       JInt (event_subscriptions (config s)))])]"
  have hello: "recv lib s timeout = (Inr (JObj hello), ?s1)"
    using assms(1-4) by (rule recv_frame)
  have refused: "perform_handshake lib s timeout
              = (Inl (OBSAuthenticationError
                        ''OBS WebSocket requires a password but none was provided''), ?s2)"
    if "truthy auth" and "password (config s) = []"
    using hello assms(5-9) that by (simp add: perform_handshake_def Let_def)
  have plain: "perform_handshake lib s timeout = complete_handshake lib ?s2 timeout ?identify"
    if "\<not> truthy auth"
    using hello assms(5-9) that by (simp add: perform_handshake_def Let_def)
  have written: "\<exists>sock'. ws (snd (perform_handshake lib s timeout)) = Some sock'
                \<and> outgoing sock' = outgoing sock @ [?identify]"
    if "\<not> truthy auth" and "\<not> send_fails sock"
  proof -
    have "\<exists>sock'. ws (snd (complete_handshake lib ?s2 timeout ?identify)) = Some sock'
                \<and> outgoing sock' = outgoing (sock\<lparr>incoming := rest\<rparr>) @ [?identify]"
      using assms(2) that(2) by (intro complete_handshake_written) simp_all
    with plain [OF that(1)] show ?thesis by simp
  qed
  from refused written show ?thesis by simp
qed

theorem perform_handshake_authentication_examples:
  "perform_handshake example_lib
      ((init None)\<lparr>ws := Some (example_socket
         [Frame ''{\"op\": 0, \"d\": {\"rpcVersion\": 1, \"authentication\": {\"challenge\": \"c\", \"salt\": \"s\"}}}''])\<rparr>)
      5
     = (Inl (OBSAuthenticationError ''OBS WebSocket requires a password but none was provided''),
        (init None)\<lparr>ws := Some (example_socket [])\<rparr>)
   \<and> (\<exists>sock'. ws (snd (perform_handshake example_lib
                          ((init None)\<lparr>ws := Some (example_socket
                             [Frame ''{\"op\": 0, \"d\": {\"rpcVersion\": 1}}'',
                              Frame ''{\"op\": 2, \"d\": {\"negotiatedRpcVersion\": 1}}''])\<rparr>)
                          5)) = Some sock'
          \<and> outgoing sock'
              = [JObj [(''op'', JInt 1),
                       (''d'', JObj [(''rpcVersion'', JInt 1), (''eventSubscriptions'', JInt 0)])]])"
proof -
  let ?m1 = "''{\"op\": 0, \"d\": {\"rpcVersion\": 1, \"authentication\": {\"challenge\": \"c\", \"salt\": \"s\"}}}''"
  let ?m2 = "''{\"op\": 0, \"d\": {\"rpcVersion\": 1}}''"
  let ?ack = "''{\"op\": 2, \"d\": {\"negotiatedRpcVersion\": 1}}''"
  let ?auth = "JObj [(''challenge'', JStr ''c''), (''salt'', JStr ''s'')]"
  let ?s = "\<lambda>evs. (init None)\<lparr>ws := Some (example_socket evs)\<rparr>"
  have l1: "json_loads example_lib ?m1
              = Some (JObj [(''op'', JInt 0),
                            (''d'', JObj [(''rpcVersion'', JInt 1), (''authentication'', ?auth)])])"
    by (simp add: example_lib_def example_frames_def)
  have l2: "json_loads example_lib ?m2
              = Some (JObj [(''op'', JInt 0), (''d'', JObj [(''rpcVersion'', JInt 1)])])"
    by (simp add: example_lib_def example_frames_def)
  have first: "perform_handshake example_lib (?s [Frame ?m1]) 5
     = (Inl (OBSAuthenticationError ''OBS WebSocket requires a password but none was provided''),
        ?s [])"
    using perform_handshake_authentication
      [where s = "?s [Frame ?m1]" and sock = "example_socket [Frame ?m1]" and message = ?m1
         and rest = "[]" and lib = example_lib and op = "JInt 0" and v = 1 and auth = ?auth
         and hello_data = "[(''rpcVersion'', JInt 1), (''authentication'', ?auth)]"
         and timeout = 5, OF _ _ _ l1]
    by (simp add: example_socket_def init_def default_config_def)
  have second: "\<exists>sock'. ws (snd (perform_handshake example_lib (?s [Frame ?m2, Frame ?ack]) 5))
                  = Some sock'
          \<and> outgoing sock'
              = [JObj [(''op'', JInt 1),
                       (''d'', JObj [(''rpcVersion'', JInt 1), (''eventSubscriptions'', JInt 0)])]]"
    using perform_handshake_authentication
      [where s = "?s [Frame ?m2, Frame ?ack]" and sock = "example_socket [Frame ?m2, Frame ?ack]"
         and message = ?m2 and rest = "[Frame ?ack]" and lib = example_lib and op = "JInt 0"
         and v = 1 and auth = JNull and hello_data = "[(''rpcVersion'', JInt 1)]"
         and timeout = 5, OF _ _ _ l2]
    by (simp add: example_socket_def init_def default_config_def)
  from first second show ?thesis by blast
qed

text \<open>
  The whole exchange of the second example: Hello without a challenge, Identify, Identified.
  The manager ends connected, with the socket switched to blocking reads. The handshake
  writes without taking the send lock.
\<close>

lemma perform_handshake_without_challenge:
  "perform_handshake example_lib
      ((init None)\<lparr>ws := Some (example_socket
         [Frame ''{\"op\": 0, \"d\": {\"rpcVersion\": 1}}'',
          Frame ''{\"op\": 2, \"d\": {\"negotiatedRpcVersion\": 1}}''])\<rparr>)
      5
   = (Inr (),
      (init None)
        \<lparr>ws := Some ((example_socket [])
                       \<lparr>outgoing :=
                          [JObj [(''op'', JInt 1),
                                 (''d'', JObj [(''rpcVersion'', JInt 1),
                                              (''eventSubscriptions'', JInt 0)])]]\<rparr>),
         identified := True,
         send_events :=
           [Sent (JObj [(''op'', JInt 1),
                        (''d'', JObj [(''rpcVersion'', JInt 1),
                                     (''eventSubscriptions'', JInt 0)])])],
         logged := [(Debug, ''OBS WebSocket handshake completed'')]\<rparr>)"
  by (simp add: perform_handshake_def complete_handshake_def recv_def send_def sock_recv_def
        sock_send_def example_socket_def example_lib_def example_frames_def init_def
        default_config_def logger_def Let_def)


end
